theory Spec2Isabelle
  imports Complex_Main "HOL-Library.Product_Lexorder"
begin

section \<open>Common types\<close>

text \<open>
  The backend is JavaScript on a document store. A \<open>Date\<close> is its number of
  milliseconds since the epoch. An \<open>ObjectId\<close> is the text that its \<open>toString\<close> gives:
  24 hexadecimal digits, the letters in lower case.
\<close>

type_synonym objectId = string
type_synonym date = int

text \<open>The reply of a route handler: the HTTP status, the message of the envelope and the data.\<close>

datatype 'a reply = Reply (status: nat) (message: string) (payload: "'a option")


section \<open>Numbers\<close>

text \<open>
  A JavaScript \<open>Number\<close> is a binary64 floating-point number. It is modelled by the real
  number it denotes, and every arithmetic operation of the code by the exact operation
  followed by the rounding of binary64: to the nearest number with a significand of 53
  bits, a tie going to the one whose last bit is 0, with the spacing of the subnormal
  numbers (\<open>2 ^ -1074\<close>) as the finest. \<open>NaN\<close> and the infinities are not modelled: a
  result beyond the largest finite number, which the code turns into \<open>Infinity\<close>, is
  outside the model.
\<close>

type_synonym number = real

text \<open>Rounding to an integer, a tie to the even one.\<close>

definition round_half_even :: "real \<Rightarrow> real" where
  "round_half_even x =
     (let f = \<lfloor>x\<rfloor>; r = x - of_int f
      in if r < 1 / 2 then of_int f
         else if 1 / 2 < r then of_int f + 1
         else if even f then of_int f else of_int f + 1)"

text \<open>
  A magnitude below \<open>2 ^ 53\<close> is doubled until its integer part has 53 bits, at most \<open>k\<close>
  times, rounded to an integer and halved as many times; a magnitude of \<open>2 ^ 53\<close> or more
  is halved first.
\<close>

fun scale_up :: "nat \<Rightarrow> real \<Rightarrow> real" where
  "scale_up k x =
     (if k = 0 \<or> 2 ^ 52 \<le> x then round_half_even x else scale_up (k - 1) (2 * x) / 2)"

fun scale_down :: "nat \<Rightarrow> real \<Rightarrow> real" where
  "scale_down k x =
     (if k = 0 \<or> x < 2 ^ 53 then round_half_even x else 2 * scale_down (k - 1) (x / 2))"

declare scale_up.simps [simp del] scale_down.simps [simp del]

definition binary64 :: "real \<Rightarrow> number" where
  "binary64 x =
     (if x = 0 then 0
      else if x < 0
      then (if - x < 2 ^ 53 then - scale_up 1074 (- x) else - scale_down 971 (- x))
      else (if x < 2 ^ 53 then scale_up 1074 x else scale_down 971 x))"

text \<open>\<open>x + y\<close> and \<open>x * y\<close> of the code; a decimal literal is the rounding of its value.\<close>

definition fadd :: "number \<Rightarrow> number \<Rightarrow> number" where
  "fadd x y = binary64 (x + y)"

definition fmul :: "number \<Rightarrow> number \<Rightarrow> number" where
  "fmul x y = binary64 (x * y)"

text \<open>
  The sum that a loop \<open>total += x\<close> from 0, or a \<open>reduce\<close> from 0, accumulates over a
  list, left to right.
\<close>

definition fsum :: "number list \<Rightarrow> number" where
  "fsum xs = foldl fadd 0 xs"

text \<open>
  \<open>Math.round\<close> gives the nearest integer, a half going towards plus infinity; it is exact
  on every number.
\<close>

definition Math_round :: "number \<Rightarrow> number" where
  "Math_round x = of_int \<lfloor>x + 1 / 2\<rfloor>"

text \<open>The truthiness of an optional number: \<open>undefined\<close> and \<open>0\<close> are falsy.\<close>

definition truthy_number :: "number option \<Rightarrow> bool" where
  "truthy_number v = (case v of None \<Rightarrow> False | Some n \<Rightarrow> n \<noteq> 0)"

text \<open>A whole amount: a natural number.\<close>

definition whole :: "number \<Rightarrow> bool" where
  "whole x = (0 \<le> x \<and> of_int \<lfloor>x\<rfloor> = x)"


section \<open>Checks and sanitizers of the validation library\<close>

text \<open>Strings are ASCII.\<close>

definition isHexDigit :: "char \<Rightarrow> bool" where
  "isHexDigit c = (c \<in> set ''0123456789abcdefABCDEF'')"

definition isMongoId :: "string \<Rightarrow> bool" where
  "isMongoId t = (length t = 24 \<and> list_all isHexDigit t)"

definition isInt :: "number \<Rightarrow> int \<Rightarrow> int \<Rightarrow> bool" where
  "isInt v lo hi = (of_int \<lfloor>v\<rfloor> = v \<and> of_int lo \<le> v \<and> v \<le> of_int hi)"

definition isSpace :: "char \<Rightarrow> bool" where
  "isSpace c = (c \<in> set [CHR 0x20, CHR 0x09, CHR 0x0A, CHR 0x0B, CHR 0x0C, CHR 0x0D])"

definition trim :: "string \<Rightarrow> string" where
  "trim t = rev (dropWhile isSpace (rev (dropWhile isSpace t)))"

definition isLength :: "string \<Rightarrow> nat \<Rightarrow> nat \<Rightarrow> bool" where
  "isLength t lo hi = (lo \<le> length t \<and> length t \<le> hi)"

definition isDigit :: "char \<Rightarrow> bool" where
  "isDigit c = (c \<in> set ''0123456789'')"

text \<open>
  The cast of the text of an id to an \<open>ObjectId\<close>, which the store applies to the \<open>_id\<close> of
  a query and the schema to a reference: the 24 digits are read whatever the case of
  their letters, so that the \<open>ObjectId\<close> is the text with its letters in lower case.
\<close>

fun lower_hex :: "char \<Rightarrow> char" where
  "lower_hex c =
     (if c = CHR ''A'' then CHR ''a'' else if c = CHR ''B'' then CHR ''b''
      else if c = CHR ''C'' then CHR ''c'' else if c = CHR ''D'' then CHR ''d''
      else if c = CHR ''E'' then CHR ''e'' else if c = CHR ''F'' then CHR ''f'' else c)"

definition castObjectId :: "string \<Rightarrow> objectId" where
  "castObjectId t = map lower_hex t"


section \<open>Accounts (models/User.cjs, routes/users.cjs, routes/auth.cjs)\<close>

datatype tier = bronze | silver | gold | platinum

datatype role = customer | admin

text \<open>
  The user document. The password hash plays no part in what follows and is left out;
  \<open>lastLogin\<close> is absent until the first login.
\<close>

record user =
  user_id :: objectId
  name :: string
  email :: string
  phone :: string
  address :: string
  membershipTier :: tier
  role :: role
  isActive :: bool
  totalOrders :: number
  totalSpent :: number
  lastLogin :: "date option"

text \<open>\<open>new User({name, email, password, phone, address})\<close> with the defaults of the schema.\<close>

definition new_user :: "objectId \<Rightarrow> string \<Rightarrow> string \<Rightarrow> string \<Rightarrow> string \<Rightarrow> user" where
  "new_user uid nm em ph ad =
     \<lparr>user_id = uid, name = nm, email = em, phone = ph, address = ad,
      membershipTier = bronze, role = customer, isActive = True,
      totalOrders = 0, totalSpent = 0, lastLogin = None\<rparr>"

text \<open>\<open>userSchema.methods.updateMembershipTier\<close>, in the order of its branches.\<close>

definition updateMembershipTier :: "user \<Rightarrow> user" where
  "updateMembershipTier u =
     (if totalSpent u \<ge> 50000 then u\<lparr>membershipTier := platinum\<rparr>
      else if totalSpent u \<ge> 25000 then u\<lparr>membershipTier := gold\<rparr>
      else if totalSpent u \<ge> 10000 then u\<lparr>membershipTier := silver\<rparr>
      else u\<lparr>membershipTier := bronze\<rparr>)"

text \<open>
  The statistics update of \<open>POST /api/orders\<close>:
  \<open>user.totalOrders += 1; user.totalSpent += total; user.updateMembershipTier()\<close>.
\<close>

definition update_user_statistics :: "number \<Rightarrow> user \<Rightarrow> user" where
  "update_user_statistics amount u =
     updateMembershipTier
       (u\<lparr>totalOrders := fadd (totalOrders u) 1, totalSpent := fadd (totalSpent u) amount\<rparr>)"

text \<open>\<open>POST /api/auth/login\<close>, once the password is verified, stamps \<open>lastLogin\<close>.\<close>

definition login_update :: "date \<Rightarrow> user \<Rightarrow> user" where
  "login_update now u = u\<lparr>lastLogin := Some now\<rparr>"

text \<open>
  \<open>PUT /api/users/profile\<close>, for a body that has passed the checks on its form. The
  validation chain trims the name and the address; each of name, phone and address is then
  written when it is present and not the empty string (\<open>if (name) updateData.name = name\<close>).
\<close>

definition truthy_string :: "string option \<Rightarrow> bool" where
  "truthy_string v = (case v of None \<Rightarrow> False | Some s \<Rightarrow> s \<noteq> [])"

definition profile_update :: "string option \<Rightarrow> string option \<Rightarrow> string option \<Rightarrow> user \<Rightarrow> user" where
  "profile_update nm ph ad u =
     (let nm' = map_option trim nm;
          ad' = map_option trim ad;
          u1 = (if truthy_string nm' then u\<lparr>name := the nm'\<rparr> else u);
          u2 = (if truthy_string ph then u1\<lparr>phone := the ph\<rparr> else u1)
      in if truthy_string ad' then u2\<lparr>address := the ad'\<rparr> else u2)"

text \<open>
  \<open>PUT /api/users/:id/membership\<close> (admin): \<open>findByIdAndUpdate(id, {membershipTier})\<close>
  writes the tier of the request body, whatever \<open>totalSpent\<close> is.
\<close>

definition put_membership :: "tier \<Rightarrow> user \<Rightarrow> user" where
  "put_membership t u = u\<lparr>membershipTier := t\<rparr>"

text \<open>\<open>PUT /api/users/:id/status\<close> (admin): \<open>findByIdAndUpdate(id, {isActive})\<close>.\<close>

definition put_status :: "bool \<Rightarrow> user \<Rightarrow> user" where
  "put_status b u = u\<lparr>isActive := b\<rparr>"

text \<open>
  The tier that the spec's table gives for an amount spent, written from the spec's words
  (bronze below 10000, silver below 25000, gold below 50000, else platinum), to be compared
  with what the code stores.
\<close>

definition spec_tier :: "number \<Rightarrow> tier" where
  "spec_tier spent =
     (if spent < 10000 then bronze
      else if spent < 25000 then silver
      else if spent < 50000 then gold
      else platinum)"

definition tier_consistent :: "user \<Rightarrow> bool" where
  "tier_consistent u = (membershipTier u = spec_tier (totalSpent u))"


section \<open>Saving a document\<close>

text \<open>
  \<open>doc.save()\<close> validates the document against its schema, then runs the schema's
  \<open>pre('save')\<close> hooks, then writes. The outcome is either \<open>Saved d\<close>, where \<open>d\<close> is the
  document as written (and as the object in memory now is), or \<open>ValidationError d\<close>: the
  promise is rejected, nothing is written, the store keeps the version it had, and \<open>d\<close> is
  the object left in memory with the caller's changes. Failures of the store itself
  (network, disk) are not modelled.
\<close>

datatype 'a save_result = Saved 'a | ValidationError 'a

fun doc_of :: "'a save_result \<Rightarrow> 'a" where
  "doc_of (Saved d) = d"
| "doc_of (ValidationError d) = d"


text \<open>What the store holds after a save of a document whose stored version was \<open>old\<close>.\<close>

fun persisted :: "'a \<Rightarrow> 'a save_result \<Rightarrow> 'a" where
  "persisted old (Saved d) = d"
| "persisted old (ValidationError d) = old"


section \<open>Catalog (models/Service.cjs, routes/services.cjs)\<close>

datatype category = shirts | suits | traditional | casual | home_essentials

datatype processing_time = Hours24 | Hours48 | Hours72 | Week1

record service =
  s_id :: objectId
  s_name :: string
  s_description :: string
  s_price :: number
  s_category :: category
  s_processingTime :: processing_time
  s_isActive :: bool
  s_isPopular :: bool
  s_tags :: "string list"
  s_careInstructions :: "string option"
  s_minQuantity :: number
  s_maxQuantity :: number

text \<open>The value of the \<open>category\<close> field, a string of the enumeration.\<close>

fun category_string :: "category \<Rightarrow> string" where
  "category_string shirts = ''shirts''"
| "category_string suits = ''suits''"
| "category_string traditional = ''traditional''"
| "category_string casual = ''casual''"
| "category_string home_essentials = ''home-essentials''"

text \<open>
  The position of a category in the ascending order of these strings, which is the order of
  \<open>sort({category: 1})\<close> and of \<open>$sort: {_id: 1}\<close>.
\<close>

fun category_rank :: "category \<Rightarrow> nat" where
  "category_rank casual = 0"
| "category_rank home_essentials = 1"
| "category_rank shirts = 2"
| "category_rank suits = 3"
| "category_rank traditional = 4"

definition categories_ascending :: "category list" where
  "categories_ascending = [casual, home_essentials, shirts, suits, traditional]"

text \<open>
  The query of \<open>GET /api/services\<close>, as parsed: a request whose \<open>category\<close>, \<open>minPrice\<close>,
  \<open>maxPrice\<close> or \<open>popular\<close> does not parse fails the validators and is answered 400 like one
  whose \<open>search\<close> has a wrong length. \<open>q_popular\<close> is \<open>popular === 'true'\<close>; \<open>q_page\<close> and
  \<open>q_limit\<close> are the results of \<open>parseInt\<close>, absent for \<open>NaN\<close> and taken to be
  natural numbers.
\<close>

record serviceQuery =
  q_category :: "category option"
  q_minPrice :: "number option"
  q_maxPrice :: "number option"
  q_search :: "string option"
  q_popular :: bool
  q_page :: "nat option"
  q_limit :: "nat option"

text \<open>\<open>parseInt(x) || d\<close>: \<open>NaN\<close> and \<open>0\<close> are falsy.\<close>

definition or_default :: "nat option \<Rightarrow> nat \<Rightarrow> nat" where
  "or_default v d = (case v of None \<Rightarrow> d | Some n \<Rightarrow> if n = 0 then d else n)"

text \<open>
  The filter built by the handler: \<open>{isActive: true}\<close>, then the category, the price range
  and the popularity flag when they are asked for.
\<close>

definition matches_query :: "serviceQuery \<Rightarrow> service \<Rightarrow> bool" where
  "matches_query q s =
     (s_isActive s
      \<and> (case q_category q of None \<Rightarrow> True | Some c \<Rightarrow> s_category s = c)
      \<and> (case q_minPrice q of None \<Rightarrow> True | Some lo \<Rightarrow> lo \<le> s_price s)
      \<and> (case q_maxPrice q of None \<Rightarrow> True | Some hi \<Rightarrow> s_price s \<le> hi)
      \<and> (if q_popular q then s_isPopular s else True))"

record pagination =
  currentPage :: nat
  totalPages :: nat
  totalServices :: nat
  hasNext :: bool
  hasPrev :: bool

record serviceListing =
  services :: "service list"
  pagination :: pagination

text \<open>\<open>Math.ceil(total / limit)\<close> on natural numbers, for a limit of at least 1.\<close>

definition ceil_div :: "nat \<Rightarrow> nat \<Rightarrow> nat" where
  "ceil_div n d = (n + d - 1) div d"

text \<open>
  \<open>GET /api/services\<close>. The text index of the store is a parameter: \<open>text_match term s\<close>
  says whether \<open>$text: {$search: term}\<close> selects \<open>s\<close>, \<open>text_score term s\<close> is its
  \<open>textScore\<close>. With a search term the matches are sorted by descending score, then price;
  without, by category, then price.
\<close>

definition get_services ::
  "(string \<Rightarrow> service \<Rightarrow> bool) \<Rightarrow> (string \<Rightarrow> service \<Rightarrow> number) \<Rightarrow> service list \<Rightarrow> serviceQuery
   \<Rightarrow> serviceListing reply" where
  "get_services text_match text_score catalog q =
     (if (case q_search q of None \<Rightarrow> False | Some t \<Rightarrow> \<not> (1 \<le> length t \<and> length t \<le> 100))
      then Reply 400 ''Invalid query parameters'' None
      else
        let page = or_default (q_page q) 1;
            limit = or_default (q_limit q) 20;
            skip = (page - 1) * limit;
            found = (case q_search q of
                       Some t \<Rightarrow>
                         (if t \<noteq> []
                          then sort_key (\<lambda>s. (- text_score t s, s_price s))
                                 (filter (\<lambda>s. matches_query q s \<and> text_match t s) catalog)
                          else sort_key (\<lambda>s. (category_rank (s_category s), s_price s))
                                 (filter (matches_query q) catalog))
                     | None \<Rightarrow>
                         sort_key (\<lambda>s. (category_rank (s_category s), s_price s))
                           (filter (matches_query q) catalog));
            total' = length found
        in Reply 200 ''Vastram services retrieved successfully''
             (Some \<lparr>services = take limit (drop skip found),
                    pagination = \<lparr>currentPage = page,
                                  totalPages = ceil_div total' limit,
                                  totalServices = total',
                                  hasNext = (page < ceil_div total' limit),
                                  hasPrev = (page > 1)\<rparr>\<rparr>))"

text \<open>
  \<open>GET /api/services/categories\<close>: the active services grouped by category, each group with
  its count, its least and greatest price and its rounded average price, in ascending
  order of the category. The average is computed by the store, here as the exact mean.
\<close>

record categoryInfo =
  cat_id :: string
  cat_name :: string
  cat_count :: nat
  cat_min :: number
  cat_max :: number
  cat_average :: number

fun categoryMap :: "category \<Rightarrow> string" where
  "categoryMap shirts = ''Shirts & Tops''"
| "categoryMap suits = ''Suits & Formal''"
| "categoryMap traditional = ''Traditional Wear''"
| "categoryMap casual = ''Casual Wear''"
| "categoryMap home_essentials = ''Home Essentials''"

fun least_of :: "number list \<Rightarrow> number" where
  "least_of [] = 0"
| "least_of (x # xs) = fold min xs x"

fun greatest_of :: "number list \<Rightarrow> number" where
  "greatest_of [] = 0"
| "greatest_of (x # xs) = fold max xs x"

definition category_group :: "service list \<Rightarrow> category \<Rightarrow> categoryInfo" where
  "category_group active c =
     (let prices = map s_price (filter (\<lambda>s. s_category s = c) active)
      in \<lparr>cat_id = category_string c, cat_name = categoryMap c, cat_count = length prices,
          cat_min = least_of prices, cat_max = greatest_of prices,
          cat_average = Math_round (sum_list prices / of_nat (length prices))\<rparr>)"

definition get_categories :: "service list \<Rightarrow> categoryInfo list" where
  "get_categories catalog =
     (let active = filter s_isActive catalog
      in map (category_group active)
           (filter (\<lambda>c. filter (\<lambda>s. s_category s = c) active \<noteq> []) categories_ascending))"

text \<open>The static listings of the model: \<open>getByCategory\<close> and \<open>getPopular\<close>.\<close>

definition getByCategory :: "service list \<Rightarrow> category \<Rightarrow> service list" where
  "getByCategory catalog c =
     sort_key s_price (filter (\<lambda>s. s_category s = c \<and> s_isActive s) catalog)"

definition getPopular :: "service list \<Rightarrow> service list" where
  "getPopular catalog = sort_key s_price (filter (\<lambda>s. s_isPopular s \<and> s_isActive s) catalog)"

text \<open>
  \<open>Service.findOne({_id: id, isActive: true})\<close>, the lookup of \<open>GET /api/services/:id\<close>, of
  \<open>POST /api/cart/items\<close> and of the checkout, on the text of an id that has the form of
  one: the query casts the text to an \<open>ObjectId\<close>.
\<close>

definition findOne_active :: "service list \<Rightarrow> string \<Rightarrow> service option" where
  "findOne_active catalog sid = find (\<lambda>s. s_id s = castObjectId sid \<and> s_isActive s) catalog"

text \<open>
  \<open>GET /api/services/:id\<close> has no validator: the cast of a text that is not 24 hexadecimal
  digits throws, and the \<open>catch\<close> answers 500.
\<close>

definition get_service :: "service list \<Rightarrow> string \<Rightarrow> service reply" where
  "get_service catalog sid =
     (if \<not> isMongoId sid then Reply 500 ''Failed to fetch Vastram service'' None
      else case findOne_active catalog sid of
        None \<Rightarrow> Reply 404 ''Vastram service not found'' None
      | Some s \<Rightarrow> Reply 200 ''Vastram service retrieved successfully'' (Some s))"

text \<open>
  \<open>DELETE /api/services/:id\<close> (admin), the soft delete:
  \<open>findByIdAndUpdate(id, {isActive: false})\<close>, on the id that the text of the path casts
  to, whether the entry is active or not. No route removes a service.
\<close>

fun deactivate :: "objectId \<Rightarrow> service list \<Rightarrow> service list" where
  "deactivate sid [] = []"
| "deactivate sid (s # rest) =
     (if s_id s = sid then s\<lparr>s_isActive := False\<rparr> # rest else s # deactivate sid rest)"

definition delete_service :: "service list \<Rightarrow> string \<Rightarrow> unit reply \<times> service list" where
  "delete_service catalog sid =
     (if \<not> isMongoId sid then (Reply 500 ''Failed to deactivate Vastram service'' None, catalog)
      else case find (\<lambda>s. s_id s = castObjectId sid) catalog of
        None \<Rightarrow> (Reply 404 ''Vastram service not found'' None, catalog)
      | Some s \<Rightarrow> (Reply 200 ''Vastram service deactivated successfully'' None,
                   deactivate (castObjectId sid) catalog))"

text \<open>
  The lookup behind \<open>populate('items.service', ...)\<close>, which the order routes run on the
  lines of an order and \<open>getOrCreateCart\<close> on the lines of a cart: by \<open>_id\<close> alone, with no
  condition on \<open>isActive\<close>.
\<close>

definition populate_service :: "service list \<Rightarrow> objectId \<Rightarrow> service option" where
  "populate_service catalog sid = find (\<lambda>s. s_id s = sid) catalog"


section \<open>Carts (models/Cart.cjs)\<close>

text \<open>
  The \<open>service\<close> of a line is declared an \<open>ObjectId\<close> that refers to a service. In a cart
  read from the store it is that id; \<open>populate('items.service')\<close> replaces it, in the
  document in memory, by the service document itself.
\<close>

datatype service_ref = Ref objectId | Doc service

text \<open>
  \<open>toString\<close> of an \<open>ObjectId\<close> is its 24 digits. \<open>toString\<close> of a document is the text that
  \<open>util.inspect\<close> prints for its fields, an object literal, of which the opening brace,
  the \<open>_id\<close> and the name are kept here.
\<close>

definition inspect_service :: "service \<Rightarrow> string" where
  "inspect_service d =
     ''{ _id: new ObjectId('' @ s_id d @ ''), name: '' @ s_name d @ '' }''"

fun toString :: "service_ref \<Rightarrow> string" where
  "toString (Ref i) = i"
| "toString (Doc d) = inspect_service d"

text \<open>The id that is written to the store for a line.\<close>

fun ref_id :: "service_ref \<Rightarrow> objectId" where
  "ref_id (Ref i) = i"
| "ref_id (Doc d) = s_id d"

record cartItem =
  ci_serviceRef :: service_ref
  ci_quantity :: number
  ci_price :: number

text \<open>\<open>item.service.toString()\<close>, the text by which the methods compare lines.\<close>

definition ci_service :: "cartItem \<Rightarrow> string" where
  "ci_service item = toString (ci_serviceRef item)"

record cart =
  cart_user :: objectId
  items :: "cartItem list"
  totalItems :: number
  totalPrice :: number
  lastUpdated :: date

text \<open>
  The validators of \<open>cartItemSchema\<close>: \<open>quantity\<close> with \<open>min 1\<close> and \<open>max 50\<close>, \<open>price\<close>
  with \<open>min 0\<close>, and a \<open>service\<close> that is an \<open>ObjectId\<close> (a text that does not cast to one
  fails the save). Validation is taken to check every line of the document, as the schema
  declares it.
\<close>

fun ref_valid :: "service_ref \<Rightarrow> bool" where
  "ref_valid (Ref i) = isMongoId i"
| "ref_valid (Doc d) = True"

definition cartItem_valid :: "cartItem \<Rightarrow> bool" where
  "cartItem_valid i =
     (ref_valid (ci_serviceRef i) \<and> 1 \<le> ci_quantity i \<and> ci_quantity i \<le> 50 \<and> 0 \<le> ci_price i)"

definition cart_valid :: "cart \<Rightarrow> bool" where
  "cart_valid c = list_all cartItem_valid (items c)"

text \<open>
  \<open>cartSchema.pre('save')\<close>: both totals are recomputed from the lines by \<open>reduce\<close>, a
  left fold from 0, and \<open>lastUpdated\<close> is stamped.
\<close>

definition cart_pre_save :: "date \<Rightarrow> cart \<Rightarrow> cart" where
  "cart_pre_save now c =
     c\<lparr>totalItems := foldl (\<lambda>total' item. fadd total' (ci_quantity item)) 0 (items c),
       totalPrice := foldl (\<lambda>total' item. fadd total' (fmul (ci_price item) (ci_quantity item)))
                       0 (items c),
       lastUpdated := now\<rparr>"

definition cart_save :: "date \<Rightarrow> cart \<Rightarrow> cart save_result" where
  "cart_save now c = (if cart_valid c then Saved (cart_pre_save now c) else ValidationError c)"

text \<open>
  What the store holds of a saved cart: each line with the id of its service, populated or
  not.
\<close>

definition depopulate :: "cart \<Rightarrow> cart" where
  "depopulate c =
     c\<lparr>items := map (\<lambda>item. item\<lparr>ci_serviceRef := Ref (ref_id (ci_serviceRef item))\<rparr>) (items c)\<rparr>"

text \<open>
  \<open>this.items.find(item => item.service.toString() === serviceId.toString())\<close>: the first
  line whose \<open>service\<close> prints as the text of the id that the caller passes.
\<close>

definition find_item :: "string \<Rightarrow> cartItem list \<Rightarrow> cartItem option" where
  "find_item serviceId xs = find (\<lambda>item. ci_service item = serviceId) xs"

text \<open>
  \<open>find\<close> returns the line itself, not a copy: an assignment to its \<open>quantity\<close> changes
  the first such line inside \<open>items\<close>.
\<close>

fun update_found :: "string \<Rightarrow> (cartItem \<Rightarrow> cartItem) \<Rightarrow> cartItem list \<Rightarrow> cartItem list" where
  "update_found serviceId f [] = []"
| "update_found serviceId f (item # rest) =
     (if ci_service item = serviceId then f item # rest
      else item # update_found serviceId f rest)"

text \<open>In the line that \<open>addItem\<close> pushes, the schema casts \<open>serviceId\<close> to an \<open>ObjectId\<close>.\<close>

definition addItem :: "date \<Rightarrow> cart \<Rightarrow> string \<Rightarrow> number \<Rightarrow> number \<Rightarrow> cart save_result" where
  "addItem now c serviceId quantity price =
     (case find_item serviceId (items c) of
        Some existingItem \<Rightarrow>
          cart_save now (c\<lparr>items := update_found serviceId
              (\<lambda>item. item\<lparr>ci_quantity := fadd (ci_quantity item) quantity\<rparr>) (items c)\<rparr>)
      | None \<Rightarrow>
          cart_save now (c\<lparr>items := items c @
              [\<lparr>ci_serviceRef = Ref (castObjectId serviceId), ci_quantity = quantity,
                ci_price = price\<rparr>]\<rparr>))"

definition updateItemQuantity :: "date \<Rightarrow> cart \<Rightarrow> string \<Rightarrow> number \<Rightarrow> cart save_result" where
  "updateItemQuantity now c serviceId quantity =
     (case find_item serviceId (items c) of
        Some item \<Rightarrow>
          (if quantity \<le> 0
           then cart_save now (c\<lparr>items := filter (\<lambda>item. ci_service item \<noteq> serviceId) (items c)\<rparr>)
           else cart_save now (c\<lparr>items := update_found serviceId
              (\<lambda>item. item\<lparr>ci_quantity := quantity\<rparr>) (items c)\<rparr>))
      | None \<Rightarrow> cart_save now c)"

definition removeItem :: "date \<Rightarrow> cart \<Rightarrow> string \<Rightarrow> cart save_result" where
  "removeItem now c serviceId =
     cart_save now (c\<lparr>items := filter (\<lambda>item. ci_service item \<noteq> serviceId) (items c)\<rparr>)"

definition clearCart :: "date \<Rightarrow> cart \<Rightarrow> cart save_result" where
  "clearCart now c = cart_save now (c\<lparr>items := []\<rparr>)"

text \<open>
  \<open>getOrCreateCart\<close>: the cart of the user when the collection has one (the \<open>user\<close> field
  is unique, so the collection is a map from user ids), with the \<open>service\<close> of each line
  populated from the catalog; else a new, empty cart (totals at their default 0), saved at
  once. The result is the cart in memory and the collection. A line whose service the
  catalog lacks is populated with \<open>null\<close>; no route removes a service, such a line keeps
  its id here, and the route that calls \<open>getOrCreateCart\<close> answers for it.
\<close>

definition new_cart :: "date \<Rightarrow> objectId \<Rightarrow> cart" where
  "new_cart now userId =
     \<lparr>cart_user = userId, items = [], totalItems = 0, totalPrice = 0, lastUpdated = now\<rparr>"

definition populate_item :: "service list \<Rightarrow> cartItem \<Rightarrow> cartItem" where
  "populate_item catalog item =
     (case populate_service catalog (ref_id (ci_serviceRef item)) of
        Some d \<Rightarrow> item\<lparr>ci_serviceRef := Doc d\<rparr>
      | None \<Rightarrow> item)"

definition populate_cart :: "service list \<Rightarrow> cart \<Rightarrow> cart" where
  "populate_cart catalog c = c\<lparr>items := map (populate_item catalog) (items c)\<rparr>"

definition getOrCreateCart ::
  "date \<Rightarrow> service list \<Rightarrow> (objectId \<rightharpoonup> cart) \<Rightarrow> objectId \<Rightarrow> cart \<times> (objectId \<rightharpoonup> cart)" where
  "getOrCreateCart now catalog carts userId =
     (case carts userId of
        Some c \<Rightarrow> (populate_cart catalog c, carts)
      | None \<Rightarrow>
          (case cart_save now (new_cart now userId) of
             Saved c \<Rightarrow> (c, carts(userId \<mapsto> depopulate c))
           | ValidationError c \<Rightarrow> (c, carts)))"

text \<open>The four mutating operations, as one type, and the call of one of them.\<close>

datatype cart_op =
    AddItem string number number
  | UpdateItemQuantity string number
  | RemoveItem string
  | ClearCart

fun cart_call :: "date \<Rightarrow> cart \<Rightarrow> cart_op \<Rightarrow> cart save_result" where
  "cart_call now c (AddItem serviceId quantity price) = addItem now c serviceId quantity price"
| "cart_call now c (UpdateItemQuantity serviceId quantity) = updateItemQuantity now c serviceId quantity"
| "cart_call now c (RemoveItem serviceId) = removeItem now c serviceId"
| "cart_call now c ClearCart = clearCart now c"

text \<open>
  The amounts of a list of lines are whole when every price and every quantity is a
  natural number and the exact totals stay below \<open>2 ^ 53\<close>, where every natural number is
  a binary64 number.
\<close>

definition whole_lines :: "cartItem list \<Rightarrow> bool" where
  "whole_lines xs =
     (list_all (\<lambda>item. whole (ci_price item) \<and> whole (ci_quantity item)) xs
      \<and> sum_list (map ci_quantity xs) < 2 ^ 53
      \<and> sum_list (map (\<lambda>item. ci_price item * ci_quantity item) xs) < 2 ^ 53)"


section \<open>Orders (models/Order.cjs)\<close>

datatype order_status =
  Pending | Confirmed | PickedUp | InProgress | Ready | OutForDelivery | Delivered | Cancelled

datatype payment_status = PaymentPending | Paid | PaymentFailed | Refunded

datatype payment_method = Cash | Card | Upi | Wallet

record orderItem =
  oi_service :: objectId
  oi_serviceName :: string
  oi_quantity :: number
  oi_price :: number
  oi_subtotal :: number

record trackingUpdate =
  tu_status :: order_status
  tu_message :: string
  tu_timestamp :: date

record order =
  order_id :: objectId
  o_orderNumber :: string
  o_customer :: objectId
  o_items :: "orderItem list"
  o_subtotal :: number
  o_tax :: number
  o_total :: number
  o_pickupAddress :: string
  o_pickupDate :: date
  o_pickupTime :: string
  o_deliveryAddress :: string
  o_estimatedDelivery :: "date option"
  o_actualDelivery :: "date option"
  o_status :: order_status
  o_specialInstructions :: "string option"
  o_paymentStatus :: payment_status
  o_paymentMethod :: payment_method
  o_trackingUpdates :: "trackingUpdate list"
  o_rating :: "number option"
  o_review :: "string option"
  o_adminNotes :: "string option"

text \<open>
  The validators of \<open>orderItemSchema\<close> and \<open>orderSchema\<close>. A required string must not be
  empty; an optional field is checked when it is present.
\<close>

definition orderItem_valid :: "orderItem \<Rightarrow> bool" where
  "orderItem_valid i =
     (oi_serviceName i \<noteq> [] \<and> 1 \<le> oi_quantity i \<and> 0 \<le> oi_price i \<and> 0 \<le> oi_subtotal i)"

definition max_length :: "nat \<Rightarrow> string option \<Rightarrow> bool" where
  "max_length n v = (case v of None \<Rightarrow> True | Some t \<Rightarrow> length t \<le> n)"

definition order_valid :: "order \<Rightarrow> bool" where
  "order_valid ord =
     (list_all orderItem_valid (o_items ord)
      \<and> 0 \<le> o_subtotal ord \<and> 0 \<le> o_tax ord \<and> 0 \<le> o_total ord
      \<and> o_pickupAddress ord \<noteq> [] \<and> length (o_pickupAddress ord) \<le> 300
      \<and> o_pickupTime ord \<noteq> []
      \<and> o_deliveryAddress ord \<noteq> [] \<and> length (o_deliveryAddress ord) \<le> 300
      \<and> max_length 500 (o_specialInstructions ord)
      \<and> (case o_rating ord of None \<Rightarrow> True | Some r \<Rightarrow> 1 \<le> r \<and> r \<le> 5)
      \<and> max_length 500 (o_review ord)
      \<and> max_length 1000 (o_adminNotes ord))"

text \<open>
  The two \<open>pre('save')\<close> hooks. The order number has its default from the constructor and
  is written only when it is empty; the estimated delivery, when absent, is the pickup
  date two calendar days later in the local time of the server
  (\<open>setDate(getDate() + 2)\<close>). The local time is taken to have a constant offset from
  UTC, so that the two days are \<open>2 * 86400000\<close> ms.
\<close>

definition order_pre_save :: "string \<Rightarrow> order \<Rightarrow> order" where
  "order_pre_save generated ord =
     (let o1 = (if o_orderNumber ord = [] then ord\<lparr>o_orderNumber := generated\<rparr> else ord)
      in if o_estimatedDelivery o1 = None
         then o1\<lparr>o_estimatedDelivery := Some (o_pickupDate o1 + 2 * 86400000)\<rparr>
         else o1)"

definition order_save :: "string \<Rightarrow> order \<Rightarrow> order save_result" where
  "order_save generated ord =
     (if order_valid ord then Saved (order_pre_save generated ord) else ValidationError ord)"

text \<open>\<open>orderSchema.methods.addTrackingUpdate\<close>: push the entry, set the status, save.\<close>

definition addTrackingUpdate ::
  "date \<Rightarrow> string \<Rightarrow> order \<Rightarrow> order_status \<Rightarrow> string \<Rightarrow> order save_result" where
  "addTrackingUpdate now generated ord st msg =
     order_save generated
       (ord\<lparr>o_trackingUpdates := o_trackingUpdates ord @
               [\<lparr>tu_status = st, tu_message = msg, tu_timestamp = now\<rparr>],
            o_status := st\<rparr>)"

text \<open>
  \<open>new Order({customer, items, subtotal, tax, total, pickupAddress, pickupDate, pickupTime,
  deliveryAddress, specialInstructions})\<close> with the defaults of the schema; the identifier
  and the default order number are generated by the environment.
\<close>

definition new_order ::
  "objectId \<Rightarrow> string \<Rightarrow> objectId \<Rightarrow> orderItem list \<Rightarrow> number \<Rightarrow> number \<Rightarrow> number
   \<Rightarrow> string \<Rightarrow> date \<Rightarrow> string \<Rightarrow> string \<Rightarrow> string option \<Rightarrow> order" where
  "new_order oid generated uid lines sub tx tot pAddr pDate pTime dAddr instr =
     \<lparr>order_id = oid, o_orderNumber = generated, o_customer = uid, o_items = lines,
      o_subtotal = sub, o_tax = tx, o_total = tot,
      o_pickupAddress = pAddr, o_pickupDate = pDate, o_pickupTime = pTime,
      o_deliveryAddress = dAddr, o_estimatedDelivery = None, o_actualDelivery = None,
      o_status = Pending, o_specialInstructions = instr,
      o_paymentStatus = PaymentPending, o_paymentMethod = Cash,
      o_trackingUpdates = [], o_rating = None, o_review = None, o_adminNotes = None\<rparr>"


section \<open>The store\<close>

text \<open>
  The four collections. Orders and users are keyed by \<open>_id\<close>, carts by their unique \<open>user\<close>;
  the catalog is a list, in the order the store enumerates it.
\<close>

record store =
  st_orders :: "objectId \<rightharpoonup> order"
  st_users :: "objectId \<rightharpoonup> user"
  st_carts :: "objectId \<rightharpoonup> cart"
  st_services :: "service list"


section \<open>Checkout (routes/orders.cjs, POST /api/orders)\<close>

text \<open>
  The pickup date of the request, as the two readers of its text see it: \<open>isISO8601\<close>
  refuses it, or accepts a text that \<open>new Date\<close> cannot read (a week date such as
  \<open>2030-W01\<close>, which gives an invalid date), or accepts a text that \<open>new Date\<close> reads as
  a time.
\<close>

datatype pickup_date = NotISO8601 | InvalidDate | ValidDate date

text \<open>The body of the request.\<close>

record itemReq =
  ir_service :: string
  ir_quantity :: number

record orderReq =
  req_items :: "itemReq list"
  req_pickupAddress :: string
  req_pickupDate :: pickup_date
  req_pickupTime :: string
  req_deliveryAddress :: string
  req_specialInstructions :: "string option"

text \<open>The pattern \<open>/^([0-1]?[0-9]|2[0-3]):[0-5][0-9]$/\<close> of the pickup time.\<close>

fun matches_pickupTime :: "string \<Rightarrow> bool" where
  "matches_pickupTime [h, c, m1, m2] =
     (isDigit h \<and> c = CHR '':'' \<and> m1 \<in> set ''012345'' \<and> isDigit m2)"
| "matches_pickupTime [h1, h2, c, m1, m2] =
     (((h1 \<in> set ''01'' \<and> isDigit h2) \<or> (h1 = CHR ''2'' \<and> h2 \<in> set ''0123''))
      \<and> c = CHR '':'' \<and> m1 \<in> set ''012345'' \<and> isDigit m2)"
| "matches_pickupTime t = False"

text \<open>
  The errors of the validation chain, in its order; a check on \<open>items.*\<close> gives one error
  for each item that fails it.
\<close>

definition order_validation_errors :: "orderReq \<Rightarrow> string list" where
  "order_validation_errors req =
     (if req_items req = [] then [''Order must contain at least one item''] else [])
     @ concat (map (\<lambda>item. if isMongoId (ir_service item) then [] else [''Invalid service ID''])
                (req_items req))
     @ concat (map (\<lambda>item. if isInt (ir_quantity item) 1 50 then []
                            else [''Quantity must be between 1 and 50''])
                (req_items req))
     @ (if isLength (trim (req_pickupAddress req)) 10 300 then []
        else [''Pickup address must be between 10 and 300 characters''])
     @ (if req_pickupDate req = NotISO8601 then [''Invalid pickup date''] else [])
     @ (if matches_pickupTime (req_pickupTime req) then [] else [''Invalid pickup time format''])
     @ (if isLength (trim (req_deliveryAddress req)) 10 300 then []
        else [''Delivery address must be between 10 and 300 characters''])
     @ (case req_specialInstructions req of
          None \<Rightarrow> []
        | Some t \<Rightarrow> if length t \<le> 500 then []
                    else [''Special instructions cannot exceed 500 characters''])"

text \<open>
  The loop over the items of the request: each item is looked up among the active
  services; the first that is not found ends the request (\<open>Inl\<close> its id); otherwise the
  line is pushed and its subtotal added to the running subtotal.
\<close>

fun order_lines ::
  "service list \<Rightarrow> itemReq list \<Rightarrow> orderItem list \<Rightarrow> number \<Rightarrow> string + orderItem list \<times> number" where
  "order_lines catalog [] orderItems subtotal = Inr (orderItems, subtotal)"
| "order_lines catalog (item # rest) orderItems subtotal =
     (case findOne_active catalog (ir_service item) of
        None \<Rightarrow> Inl (ir_service item)
      | Some service \<Rightarrow>
          (let itemSubtotal = fmul (s_price service) (ir_quantity item)
           in order_lines catalog rest
                (orderItems @ [\<lparr>oi_service = s_id service, oi_serviceName = s_name service,
                                oi_quantity = ir_quantity item, oi_price = s_price service,
                                oi_subtotal = itemSubtotal\<rparr>])
                (fadd subtotal itemSubtotal)))"

text \<open>
  What follows the insertion of the order: the statistics of the account (a missing
  account makes \<open>user.totalOrders\<close> throw, which the handler answers with 500, the order
  being written already), then the clearing of the cart when there is one.
\<close>

definition clear_cart_of :: "date \<Rightarrow> objectId \<Rightarrow> (objectId \<rightharpoonup> cart) \<Rightarrow> (objectId \<rightharpoonup> cart)" where
  "clear_cart_of now uid carts =
     (case carts uid of
        None \<Rightarrow> carts
      | Some c \<Rightarrow> carts(uid \<mapsto> persisted c (clearCart now c)))"

text \<open>
  The handler, after \<open>authenticateToken\<close> has set \<open>req.user\<close> (\<open>uid\<close> is its \<open>_id\<close>). \<open>now\<close>
  is the clock, read once for the whole request; \<open>oid\<close> and \<open>generated\<close> are the identifier
  and the order number that the environment generates for the new document. The result is
  the reply and the store. An invalid date is not \<open><= now\<close> (the comparison with \<open>NaN\<close> is
  false), so that the request goes on to the loop, and the save of the order then rejects
  the date. The account is saved as the handler leaves it (the validators of the user
  schema bear on fields that the handler does not touch).
\<close>

definition create_order ::
  "date \<Rightarrow> objectId \<Rightarrow> string \<Rightarrow> store \<Rightarrow> objectId \<Rightarrow> orderReq \<Rightarrow> order reply \<times> store" where
  "create_order now oid generated st uid req =
     (if order_validation_errors req \<noteq> [] then (Reply 400 ''Validation failed'' None, st)
      else if (case req_pickupDate req of ValidDate d \<Rightarrow> d \<le> now | InvalidDate \<Rightarrow> False
               | NotISO8601 \<Rightarrow> False)
      then (Reply 400 ''Pickup date must be in the future'' None, st)
      else case order_lines (st_services st) (req_items req) [] 0 of
        Inl missing \<Rightarrow> (Reply 400 (''Service not found: '' @ missing) None, st)
      | Inr (orderItems, subtotal) \<Rightarrow>
          let tax = Math_round (fmul subtotal (binary64 (18 / 100)));
              total' = fadd subtotal tax
          in case req_pickupDate req of
               NotISO8601 \<Rightarrow>
                 (Reply 500 ''Failed to place Vastram order. Please try again.'' None, st)
             | InvalidDate \<Rightarrow>
                 (Reply 500 ''Failed to place Vastram order. Please try again.'' None, st)
             | ValidDate pickupDateTime \<Rightarrow>
                (case order_save generated
                      (new_order oid generated uid orderItems subtotal tax total'
                         (trim (req_pickupAddress req)) pickupDateTime (req_pickupTime req)
                         (trim (req_deliveryAddress req)) (req_specialInstructions req)) of
                 ValidationError d \<Rightarrow>
                   (Reply 500 ''Failed to place Vastram order. Please try again.'' None, st)
               | Saved o1 \<Rightarrow>
                   (case addTrackingUpdate now generated o1 Pending
                           ''Order placed successfully. Waiting for confirmation.'' of
                      ValidationError d \<Rightarrow>
                        (Reply 500 ''Failed to place Vastram order. Please try again.'' None,
                         st\<lparr>st_orders := (st_orders st)(oid \<mapsto> o1)\<rparr>)
                    | Saved o2 \<Rightarrow>
                        (let st1 = st\<lparr>st_orders := (st_orders st)(oid \<mapsto> o2)\<rparr>
                         in case st_users st1 uid of
                              None \<Rightarrow>
                                (Reply 500 ''Failed to place Vastram order. Please try again.'' None, st1)
                            | Some u \<Rightarrow>
                                (Reply 201 ''Vastram order placed successfully! We will contact you soon for pickup confirmation.''
                                   (Some o2),
                                 st1\<lparr>st_users := (st_users st1)(uid \<mapsto> update_user_statistics total' u),
                                     st_carts := clear_cart_of now uid (st_carts st1)\<rparr>)))))"



section \<open>Status, review and cancellation (routes/orders.cjs)\<close>

text \<open>
  The \<open>:id\<close> of a path is taken to be a well-formed \<open>ObjectId\<close>. In each handler the save
  of an order that the schema rejects throws, and the handler answers 500.
\<close>

text \<open>\<open>PUT /api/orders/:id/status\<close> (admin): any status of the enumeration, from any status.\<close>

fun statusMessages :: "order_status \<Rightarrow> string option" where
  "statusMessages Confirmed = Some ''Order confirmed. Preparing for pickup.''"
| "statusMessages PickedUp = Some ''Items picked up successfully.''"
| "statusMessages InProgress = Some ''Your items are being processed at Vastram facility.''"
| "statusMessages Ready = Some ''Your order is ready for delivery.''"
| "statusMessages OutForDelivery = Some ''Your order is out for delivery.''"
| "statusMessages Delivered = Some ''Order delivered successfully. Thank you for choosing Vastram!''"
| "statusMessages Cancelled = Some ''Order has been cancelled.''"
| "statusMessages Pending = None"

definition update_order_status ::
  "date \<Rightarrow> string \<Rightarrow> store \<Rightarrow> objectId \<Rightarrow> order_status \<Rightarrow> string option \<Rightarrow> order reply \<times> store" where
  "update_order_status now generated st oid new_status msg =
     (if \<not> max_length 200 msg then (Reply 400 ''Validation failed'' None, st)
      else case st_orders st oid of
        None \<Rightarrow> (Reply 404 ''Vastram order not found'' None, st)
      | Some ord \<Rightarrow>
          (let trackingMessage =
                 (if truthy_string msg then the msg
                  else case statusMessages new_status of
                         Some m \<Rightarrow> m
                       | None \<Rightarrow> ''Order status updated to pending'')
           in case addTrackingUpdate now generated ord new_status trackingMessage of
                ValidationError d \<Rightarrow> (Reply 500 ''Failed to update Vastram order status'' None, st)
              | Saved o1 \<Rightarrow>
                  (if new_status = Delivered
                   then (case order_save generated (o1\<lparr>o_actualDelivery := Some now\<rparr>) of
                           ValidationError d \<Rightarrow>
                             (Reply 500 ''Failed to update Vastram order status'' None,
                              st\<lparr>st_orders := (st_orders st)(oid \<mapsto> o1)\<rparr>)
                         | Saved o2 \<Rightarrow>
                             (Reply 200 ''Vastram order status updated successfully'' (Some o2),
                              st\<lparr>st_orders := (st_orders st)(oid \<mapsto> o2)\<rparr>))
                   else (Reply 200 ''Vastram order status updated successfully'' (Some o1),
                         st\<lparr>st_orders := (st_orders st)(oid \<mapsto> o1)\<rparr>))))"

text \<open>
  \<open>POST /api/orders/:id/review\<close>. The order is looked up by its id, its customer and the
  status \<open>delivered\<close>; \<open>if (order.rating)\<close> is the truthiness of the stored rating.
\<close>

record reviewData =
  rv_rating :: "number option"
  rv_review :: "string option"

definition add_review ::
  "string \<Rightarrow> store \<Rightarrow> objectId \<Rightarrow> objectId \<Rightarrow> number \<Rightarrow> string option \<Rightarrow> reviewData reply \<times> store" where
  "add_review generated st uid oid rating review =
     (if \<not> isInt rating 1 5 \<or> \<not> max_length 500 review
      then (Reply 400 ''Validation failed'' None, st)
      else case st_orders st oid of
        None \<Rightarrow> (Reply 404 ''Order not found or not eligible for review'' None, st)
      | Some ord \<Rightarrow>
          if \<not> (o_customer ord = uid \<and> o_status ord = Delivered)
          then (Reply 404 ''Order not found or not eligible for review'' None, st)
          else if truthy_number (o_rating ord)
          then (Reply 400 ''Order has already been reviewed'' None, st)
          else case order_save generated (ord\<lparr>o_rating := Some rating, o_review := review\<rparr>) of
                 ValidationError d \<Rightarrow> (Reply 500 ''Failed to add review'' None, st)
               | Saved o1 \<Rightarrow>
                   (Reply 200 ''Thank you for your review! Your feedback helps us improve Vastram services.''
                      (Some \<lparr>rv_rating = o_rating o1, rv_review = o_review o1\<rparr>),
                    st\<lparr>st_orders := (st_orders st)(oid \<mapsto> o1)\<rparr>))"

text \<open>
  \<open>DELETE /api/orders/:id\<close>, the cancellation. A caller who is not an admin sees only his
  own orders; \<open>['pending', 'confirmed'].includes(order.status)\<close> is the condition.
\<close>

definition cancel_order ::
  "date \<Rightarrow> string \<Rightarrow> store \<Rightarrow> user \<Rightarrow> objectId \<Rightarrow> unit reply \<times> store" where
  "cancel_order now generated st caller oid =
     (case st_orders st oid of
        None \<Rightarrow> (Reply 404 ''Vastram order not found'' None, st)
      | Some ord \<Rightarrow>
          if role caller \<noteq> admin \<and> o_customer ord \<noteq> user_id caller
          then (Reply 404 ''Vastram order not found'' None, st)
          else if o_status ord \<notin> set [Pending, Confirmed]
          then (Reply 400 ''Order cannot be cancelled at this stage. Please contact Vastram support.''
                  None, st)
          else case addTrackingUpdate now generated ord Cancelled
                      ''Order cancelled by customer request.'' of
                 ValidationError d \<Rightarrow> (Reply 500 ''Failed to cancel Vastram order'' None, st)
               | Saved o1 \<Rightarrow>
                   (Reply 200 ''Vastram order cancelled successfully'' None,
                    st\<lparr>st_orders := (st_orders st)(oid \<mapsto> o1)\<rparr>))"

text \<open>
  \<open>GET /api/orders/:id\<close>: the order, when the caller may see it, with the service of each
  line populated from the catalog.
\<close>

definition get_order ::
  "store \<Rightarrow> user \<Rightarrow> objectId \<Rightarrow> (order \<times> (orderItem \<times> service option) list) reply" where
  "get_order st caller oid =
     (case st_orders st oid of
        None \<Rightarrow> Reply 404 ''Vastram order not found'' None
      | Some ord \<Rightarrow>
          if role caller \<noteq> admin \<and> o_customer ord \<noteq> user_id caller
          then Reply 404 ''Vastram order not found'' None
          else Reply 200 ''Vastram order details retrieved successfully''
                 (Some (ord, map (\<lambda>line. (line, populate_service (st_services st) (oi_service line)))
                               (o_items ord))))"


section \<open>Adding to the cart (routes/cart.cjs, POST /api/cart/items)\<close>

text \<open>
  The handler, after \<open>authenticateToken\<close> has set \<open>req.user\<close> (\<open>uid\<close> is its \<open>_id\<close>): the
  validation of the body, the lookup of the active service, the cart of the user from
  \<open>getOrCreateCart\<close>, and \<open>addItem\<close> on that cart with the id of the request and the price
  of the service. A line of the cart whose service the catalog lacks is populated with
  \<open>null\<close>, on which the \<open>toString\<close> of \<open>addItem\<close> throws; this, like a save that fails, is
  answered by the \<open>catch\<close> with 500. The store receives the saved cart with the ids of
  its services; the reply carries the cart populated again.
\<close>

definition cart_item_validation_errors :: "string \<Rightarrow> number \<Rightarrow> string list" where
  "cart_item_validation_errors serviceId quantity =
     (if isMongoId serviceId then [] else [''Invalid service ID''])
     @ (if isInt quantity 1 50 then [] else [''Quantity must be between 1 and 50''])"

definition post_cart_item ::
  "date \<Rightarrow> store \<Rightarrow> objectId \<Rightarrow> string \<Rightarrow> number \<Rightarrow> cart reply \<times> store" where
  "post_cart_item now st uid serviceId quantity =
     (if cart_item_validation_errors serviceId quantity \<noteq> []
      then (Reply 400 ''Validation failed'' None, st)
      else case findOne_active (st_services st) serviceId of
        None \<Rightarrow> (Reply 404 ''Vastram service not found or unavailable'' None, st)
      | Some service \<Rightarrow>
          (let got = getOrCreateCart now (st_services st) (st_carts st) uid;
               cart = fst got;
               st1 = st\<lparr>st_carts := snd got\<rparr>
           in if list_ex (\<lambda>item. populate_service (st_services st) (ref_id (ci_serviceRef item))
                                   = None) (items cart)
              then (Reply 500 ''Failed to add item to Vastram cart'' None, st1)
              else case addItem now cart serviceId quantity (s_price service) of
                ValidationError d \<Rightarrow> (Reply 500 ''Failed to add item to Vastram cart'' None, st1)
              | Saved c' \<Rightarrow>
                  (Reply 200 (s_name service @ '' added to your Vastram cart'')
                     (Some (populate_cart (st_services st) c')),
                   st1\<lparr>st_carts := (st_carts st1)(uid \<mapsto> depopulate c')\<rparr>)))"


section \<open>The order routes as one step\<close>

text \<open>
  The requests that write to the order collection, each with what its handler reads from
  the request, and the handler's effect: the status of the reply and the store.
\<close>

datatype order_request =
    PostOrder objectId orderReq
  | PutOrderStatus objectId order_status "string option"
  | PostReview objectId objectId number "string option"
  | DeleteOrder user objectId

fun handle_order_request ::
  "date \<Rightarrow> objectId \<Rightarrow> string \<Rightarrow> store \<Rightarrow> order_request \<Rightarrow> nat \<times> store" where
  "handle_order_request now oid generated st (PostOrder uid req) =
     (case create_order now oid generated st uid req of (r, st') \<Rightarrow> (status r, st'))"
| "handle_order_request now oid generated st (PutOrderStatus k new_status msg) =
     (case update_order_status now generated st k new_status msg of (r, st') \<Rightarrow> (status r, st'))"
| "handle_order_request now oid generated st (PostReview uid k rating review) =
     (case add_review generated st uid k rating review of (r, st') \<Rightarrow> (status r, st'))"
| "handle_order_request now oid generated st (DeleteOrder caller k) =
     (case cancel_order now generated st caller k of (r, st') \<Rightarrow> (status r, st'))"


section \<open>The scenario of the spec\<close>

text \<open>
  One account that has spent nothing, one catalog entry at 100 a piece with a deactivated
  sibling, and the checkout of two pieces.
\<close>

definition scenario_user :: user where
  "scenario_user =
     new_user ''64a000000000000000000001'' ''Test'' ''t@x.com'' ''+919876543210'' ''10 chars+ street''"

definition scenario_service :: service where
  "scenario_service =
     \<lparr>s_id = ''64b000000000000000000001'', s_name = ''Premium Shirt Laundry'',
      s_description = ''Professional cleaning and pressing of dress shirts'', s_price = 100,
      s_category = shirts, s_processingTime = Hours24, s_isActive = True, s_isPopular = True,
      s_tags = [''shirt'', ''laundry'', ''pressing''], s_careInstructions = None,
      s_minQuantity = 1, s_maxQuantity = 50\<rparr>"

definition scenario_retired :: service where
  "scenario_retired =
     scenario_service\<lparr>s_id := ''64b000000000000000000002'', s_name := ''Suit Dry Cleaning'',
       s_category := suits, s_isActive := False\<rparr>"

definition scenario_store :: store where
  "scenario_store =
     \<lparr>st_orders = Map.empty,
      st_users = [''64a000000000000000000001'' \<mapsto> scenario_user],
      st_carts = Map.empty,
      st_services = [scenario_service, scenario_retired]\<rparr>"

definition scenario_request :: orderReq where
  "scenario_request =
     \<lparr>req_items = [\<lparr>ir_service = ''64b000000000000000000001'', ir_quantity = 2\<rparr>],
      req_pickupAddress = ''12 Main Street, Pune'', req_pickupDate = ValidDate 1700086400000,
      req_pickupTime = ''9:30'', req_deliveryAddress = ''12 Main Street, Pune'',
      req_specialInstructions = None\<rparr>"

definition scenario_order :: order where
  "scenario_order =
     \<lparr>order_id = ''64c000000000000000000001'', o_orderNumber = ''VAST-1700000000000-007'',
      o_customer = ''64a000000000000000000001'',
      o_items = [\<lparr>oi_service = ''64b000000000000000000001'',
                  oi_serviceName = ''Premium Shirt Laundry'', oi_quantity = 2,
                  oi_price = 100, oi_subtotal = 200\<rparr>],
      o_subtotal = 200, o_tax = 36, o_total = 236,
      o_pickupAddress = ''12 Main Street, Pune'', o_pickupDate = 1700086400000,
      o_pickupTime = ''9:30'', o_deliveryAddress = ''12 Main Street, Pune'',
      o_estimatedDelivery = Some 1700259200000, o_actualDelivery = None,
      o_status = Pending, o_specialInstructions = None,
      o_paymentStatus = PaymentPending, o_paymentMethod = Cash,
      o_trackingUpdates =
        [\<lparr>tu_status = Pending,
          tu_message = ''Order placed successfully. Waiting for confirmation.'',
          tu_timestamp = 1700000000000\<rparr>],
      o_rating = None, o_review = None, o_adminNotes = None\<rparr>"

text \<open>The store with the scenario's order placed, in a given status.\<close>

definition scenario_with :: "order_status \<Rightarrow> store" where
  "scenario_with s =
     scenario_store\<lparr>st_orders := [''64c000000000000000000001'' \<mapsto> scenario_order\<lparr>o_status := s\<rparr>]\<rparr>"




text \<open>A cart of the scenario's account, as the store holds it, with one line of 30 pieces.\<close>

definition scenario_cart :: cart where
  "scenario_cart =
     \<lparr>cart_user = ''64a000000000000000000001'',
      items = [\<lparr>ci_serviceRef = Ref ''64b000000000000000000001'', ci_quantity = 30,
                ci_price = 100\<rparr>],
      totalItems = 30, totalPrice = 3000, lastUpdated = 1700000000000\<rparr>"

definition scenario_with_cart :: store where
  "scenario_with_cart =
     scenario_store\<lparr>st_carts := [''64a000000000000000000001'' \<mapsto> scenario_cart]\<rparr>"

text \<open>
  The store in which the scenario's account has an order, delivered, of two pieces of the
  service that has since been deactivated and two of the service that is active.
\<close>

definition historical_order :: order where
  "historical_order =
     scenario_order\<lparr>o_items :=
       [\<lparr>oi_service = ''64b000000000000000000002'', oi_serviceName = ''Suit Dry Cleaning'',
         oi_quantity = 2, oi_price = 100, oi_subtotal = 200\<rparr>,
        \<lparr>oi_service = ''64b000000000000000000001'', oi_serviceName = ''Premium Shirt Laundry'',
         oi_quantity = 2, oi_price = 100, oi_subtotal = 200\<rparr>],
       o_subtotal := 400, o_tax := 72, o_total := 472, o_status := Delivered\<rparr>"

definition historical_store :: store where
  "historical_store =
     scenario_store\<lparr>st_orders := [''64c000000000000000000001'' \<mapsto> historical_order]\<rparr>"


section \<open>Whole amounts are computed exactly\<close>

lemma round_half_even_of_int: "round_half_even (of_int n) = of_int n"
  by (simp add: round_half_even_def)

lemma scale_up_of_int: "scale_up k (of_int n) = of_int n"
proof (induction k arbitrary: n)
  case 0
  show ?case by (simp add: scale_up.simps round_half_even_of_int)
next
  case (Suc k)
  have "scale_up k (2 * of_int n) = scale_up k (of_int (2 * n))" by simp
  also have "\<dots> = of_int (2 * n)" by (rule Suc.IH)
  finally have "scale_up k (2 * of_int n) / 2 = of_int n" by simp
  then show ?case
    by (subst scale_up.simps) (simp add: round_half_even_of_int)
qed

lemma binary64_whole: "whole x \<Longrightarrow> x < 2 ^ 53 \<Longrightarrow> binary64 x = x"
proof -
  assume w: "whole x" and b: "x < 2 ^ 53"
  from w have x: "x = of_int \<lfloor>x\<rfloor>" and nn: "0 \<le> x" by (auto simp: whole_def)
  have "scale_up 1074 x = x" by (subst x, subst (2) x) (rule scale_up_of_int)
  with nn b show ?thesis by (simp add: binary64_def)
qed

lemma whole_add: "whole x \<Longrightarrow> whole y \<Longrightarrow> whole (x + y)"
  by (auto simp: whole_def) (metis floor_of_int of_int_add)

lemma whole_mult: "whole x \<Longrightarrow> whole y \<Longrightarrow> whole (x * y)"
  by (auto simp: whole_def) (metis floor_of_int of_int_mult)

lemma whole_0: "whole 0"
  by (simp add: whole_def)

lemma fadd_whole: "whole x \<Longrightarrow> whole y \<Longrightarrow> x + y < 2 ^ 53 \<Longrightarrow> fadd x y = x + y"
  by (simp add: fadd_def binary64_whole whole_add)

lemma fmul_whole: "whole x \<Longrightarrow> whole y \<Longrightarrow> x * y < 2 ^ 53 \<Longrightarrow> fmul x y = x * y"
  by (simp add: fmul_def binary64_whole whole_mult)

lemma whole_sum_list: "list_all whole xs \<Longrightarrow> whole (sum_list xs)"
  by (induction xs) (simp_all add: whole_0 whole_add)

lemma foldl_fadd_whole:
  "whole a \<Longrightarrow> list_all whole xs \<Longrightarrow> a + sum_list xs < 2 ^ 53 \<Longrightarrow>
   foldl fadd a xs = a + sum_list xs"
proof (induction xs arbitrary: a)
  case Nil
  show ?case by simp
next
  case (Cons x xs)
  from Cons.prems have wx: "whole x" and wxs: "list_all whole xs" by simp_all
  from wxs have "0 \<le> sum_list xs" using whole_sum_list by (auto simp: whole_def)
  with Cons.prems have "a + x < 2 ^ 53" by simp
  with Cons.prems wx have f: "fadd a x = a + x" by (simp add: fadd_whole)
  from Cons.prems wx have "whole (a + x)" by (simp add: whole_add)
  from Cons.IH [OF this wxs] Cons.prems have "foldl fadd (a + x) xs = a + x + sum_list xs"
    by (simp add: add.assoc)
  with f show ?case by (simp add: add.assoc)
qed

lemma fsum_whole:
  "list_all whole xs \<Longrightarrow> sum_list xs < 2 ^ 53 \<Longrightarrow> fsum xs = sum_list xs"
  using foldl_fadd_whole [of 0 xs] by (simp add: fsum_def whole_0)

lemma foldl_fadd_map:
  "foldl (\<lambda>acc x. fadd acc (g x)) a xs = foldl fadd a (map g xs)"
  by (induction xs arbitrary: a) simp_all

lemma whole_numeral [simp]: "whole (numeral n)"
  by (simp add: whole_def)

lemma whole_1 [simp]: "whole 1"
  by (simp add: whole_def)

lemma binary64_numeral:
  "(numeral n :: real) < 2 ^ 53 \<Longrightarrow> binary64 (numeral n) = numeral n"
  by (simp add: binary64_whole)

lemma binary64_0 [simp]: "binary64 0 = 0"
  by (simp add: binary64_def)

lemma binary64_1 [simp]: "binary64 1 = 1"
  by (simp add: binary64_whole)

text \<open>The numbers that the literals of the code and of the scenarios denote.\<close>

lemma literal_0_18:
  "binary64 (18 / 100) = 3242591731706757 / 18014398509481984"
  "binary64 (9 / 50) = 3242591731706757 / 18014398509481984"
  by (simp_all add: binary64_def scale_up.simps round_half_even_def)



lemma literal_0_1: "binary64 (1 / 10) = 3602879701896397 / 36028797018963968"
  by (simp add: binary64_def scale_up.simps round_half_even_def)


section \<open>Cart operations\<close>

lemma cart_pre_save_items: "items (cart_pre_save now c) = items c"
  by (simp add: cart_pre_save_def)

lemma cart_pre_save_totals:
  "totalItems (cart_pre_save now c) = fsum (map ci_quantity (items c))"
  "totalPrice (cart_pre_save now c)
     = fsum (map (\<lambda>item. fmul (ci_price item) (ci_quantity item)) (items c))"
  by (simp_all add: cart_pre_save_def fsum_def foldl_fadd_map [symmetric])

lemma cart_save_Saved:
  "cart_save now c = Saved c' \<Longrightarrow> c' = cart_pre_save now c \<and> cart_valid c"
  by (auto simp: cart_save_def split: if_splits)

lemma cart_save_doc_items: "items (doc_of (cart_save now c)) = items c"
  by (simp add: cart_save_def cart_pre_save_items)

lemma cart_call_Saved:
  "cart_call now c opn = Saved c' \<Longrightarrow> \<exists>d. c' = cart_pre_save now d \<and> cart_valid d"
  by (cases opn)
     (auto simp: addItem_def updateItemQuantity_def removeItem_def clearCart_def
           dest!: cart_save_Saved split: option.splits if_splits)

lemma whole_sum_list_nonneg: "list_all whole xs \<Longrightarrow> 0 \<le> sum_list xs"
  by (induction xs) (simp_all add: whole_def)

lemma whole_le_sum_list:
  "list_all whole xs \<Longrightarrow> x \<in> set xs \<Longrightarrow> x \<le> sum_list xs"
proof (induction xs)
  case Nil
  then show ?case by simp
next
  case (Cons y ys)
  from Cons.prems have wy: "whole y" and wys: "list_all whole ys" by simp_all
  from wy whole_sum_list_nonneg [OF wys] have n: "0 \<le> y" "0 \<le> sum_list ys"
    by (simp_all add: whole_def)
  show ?case
  proof (cases "x = y")
    case True
    with n show ?thesis by simp
  next
    case False
    with Cons.prems have "x \<in> set ys" "list_all whole ys" by simp_all
    with Cons.IH have "x \<le> sum_list ys" by simp
    with n show ?thesis by simp
  qed
qed

lemma whole_lines_quantities:
  "whole_lines xs \<Longrightarrow> fsum (map ci_quantity xs) = sum_list (map ci_quantity xs)"
  by (rule fsum_whole) (auto simp: whole_lines_def list_all_iff)

lemma whole_lines_prices:
  assumes "whole_lines xs"
  shows "fsum (map (\<lambda>item. fmul (ci_price item) (ci_quantity item)) xs)
           = sum_list (map (\<lambda>item. ci_price item * ci_quantity item) xs)"
proof -
  let ?g = "\<lambda>item. ci_price item * ci_quantity item"
  from assms have w: "list_all whole (map ?g xs)"
    by (auto simp: whole_lines_def list_all_iff whole_mult)
  from assms have b: "sum_list (map ?g xs) < 2 ^ 53"
    by (simp add: whole_lines_def)
  have "fmul (ci_price item) (ci_quantity item) = ?g item" if "item \<in> set xs" for item
  proof -
    from that have "?g item \<in> set (map ?g xs)" by simp
    from whole_le_sum_list [OF w this] b have "?g item < 2 ^ 53" by simp
    with assms that show ?thesis
      by (auto simp: whole_lines_def list_all_iff fmul_whole)
  qed
  then have "map (\<lambda>item. fmul (ci_price item) (ci_quantity item)) xs = map ?g xs"
    by simp
  with fsum_whole [OF w b] show ?thesis by (simp only:)
qed

text \<open>
  Claim C4: whichever of \<open>addItem\<close>, \<open>updateItemQuantity\<close>, \<open>removeItem\<close> and \<open>clearCart\<close>
  is called on whichever cart, the document it writes has \<open>totalItems\<close> equal to the sum of
  the quantities of its lines and \<open>totalPrice\<close> equal to the sum of price times quantity
  over its lines, each product and each sum being the one the code computes: on binary64
  numbers, the lines taken from the first to the last. When the prices and the quantities
  are whole these are the exact sum and the exact products. (A rejected save writes
  nothing.)
\<close>

theorem C4_cart_totals_recomputed:
  "cart_call now c opn = Saved c' \<Longrightarrow>
   totalItems c' = fsum (map ci_quantity (items c'))
   \<and> totalPrice c' = fsum (map (\<lambda>item. fmul (ci_price item) (ci_quantity item)) (items c'))
   \<and> (whole_lines (items c') \<longrightarrow>
        totalItems c' = sum_list (map ci_quantity (items c'))
        \<and> totalPrice c' = sum_list (map (\<lambda>item. ci_price item * ci_quantity item) (items c')))"
  by (auto dest!: cart_call_Saved
      simp: cart_pre_save_totals cart_pre_save_items whole_lines_quantities whole_lines_prices)

theorem C4_cart_totals_recomputed_witness:
  "cart_call 5 (new_cart 1 ''64a000000000000000000001'')
       (AddItem ''64b000000000000000000003'' 3 (binary64 (1 / 10)))
     = Saved \<lparr>cart_user = ''64a000000000000000000001'',
              items = [\<lparr>ci_serviceRef = Ref ''64b000000000000000000003'', ci_quantity = 3,
                        ci_price = 3602879701896397 / 36028797018963968\<rparr>],
              totalItems = 3, totalPrice = 1351079888211149 / 4503599627370496,
              lastUpdated = 5\<rparr>
   \<and> (1351079888211149 / 4503599627370496 :: number)
       = fsum (map (\<lambda>item. fmul (ci_price item) (ci_quantity item))
           [\<lparr>ci_serviceRef = Ref ''64b000000000000000000003'', ci_quantity = 3,
             ci_price = 3602879701896397 / 36028797018963968\<rparr>])
   \<and> (1351079888211149 / 4503599627370496 :: number) \<noteq> 3 / 10
   \<and> cart_call 5 (new_cart 1 ''64a000000000000000000001'')
       (AddItem ''64b000000000000000000001'' 2 100)
     = Saved \<lparr>cart_user = ''64a000000000000000000001'',
              items = [\<lparr>ci_serviceRef = Ref ''64b000000000000000000001'', ci_quantity = 2,
                        ci_price = 100\<rparr>],
              totalItems = 2, totalPrice = 200, lastUpdated = 5\<rparr>
   \<and> whole_lines [\<lparr>ci_serviceRef = Ref ''64b000000000000000000001'', ci_quantity = 2,
                     ci_price = 100\<rparr>]
   \<and> (200 :: number) = sum_list (map (\<lambda>item. ci_price item * ci_quantity item)
         [\<lparr>ci_serviceRef = Ref ''64b000000000000000000001'', ci_quantity = 2, ci_price = 100\<rparr>])"
proof -
  have e: "cart_call 5 (new_cart 1 ''64a000000000000000000001'')
       (AddItem ''64b000000000000000000003'' 3 (binary64 (1 / 10)))
     = Saved \<lparr>cart_user = ''64a000000000000000000001'',
              items = [\<lparr>ci_serviceRef = Ref ''64b000000000000000000003'', ci_quantity = 3,
                        ci_price = 3602879701896397 / 36028797018963968\<rparr>],
              totalItems = 3, totalPrice = 1351079888211149 / 4503599627370496,
              lastUpdated = 5\<rparr>"
    by (simp add: addItem_def new_cart_def find_item_def cart_save_def cart_valid_def
        cartItem_valid_def cart_pre_save_def castObjectId_def isMongoId_def isHexDigit_def
        fadd_def fmul_def binary64_def scale_up.simps round_half_even_def)
  have w: "cart_call 5 (new_cart 1 ''64a000000000000000000001'')
       (AddItem ''64b000000000000000000001'' 2 100)
     = Saved \<lparr>cart_user = ''64a000000000000000000001'',
              items = [\<lparr>ci_serviceRef = Ref ''64b000000000000000000001'', ci_quantity = 2,
                        ci_price = 100\<rparr>],
              totalItems = 2, totalPrice = 200, lastUpdated = 5\<rparr>"
    by (simp add: addItem_def new_cart_def find_item_def cart_save_def cart_valid_def
        cartItem_valid_def cart_pre_save_def castObjectId_def isMongoId_def isHexDigit_def
        fadd_def fmul_def binary64_numeral)
  have l: "whole_lines [\<lparr>ci_serviceRef = Ref ''64b000000000000000000001'', ci_quantity = 2,
                     ci_price = 100\<rparr>]"
    by (simp add: whole_lines_def)
  from C4_cart_totals_recomputed [OF e] C4_cart_totals_recomputed [OF w] e w l
  show ?thesis by simp
qed

lemma find_item_append_None:
  "find_item sid xs = None \<Longrightarrow>
   find_item sid (xs @ [l]) = (if ci_service l = sid then Some l else None)"
  by (induction xs) (auto simp: find_item_def)

lemma update_found_append_None:
  "find_item sid xs = None \<Longrightarrow> ci_service l = sid \<Longrightarrow> update_found sid f (xs @ [l]) = xs @ [f l]"
  by (induction xs) (auto simp: find_item_def split: if_splits)

lemma find_item_update_found:
  "find_item sid xs = Some e \<Longrightarrow> (\<And>i. ci_service (f i) = ci_service i) \<Longrightarrow>
   find_item sid (update_found sid f xs) = Some (f e)"
  by (induction xs) (auto simp: find_item_def split: if_splits)

lemma update_found_twice:
  "(\<And>i. ci_service (f i) = ci_service i) \<Longrightarrow>
   update_found sid g (update_found sid f xs) = update_found sid (\<lambda>i. g (f i)) xs"
  by (induction xs) auto

lemma addItem_doc_items:
  "items (doc_of (addItem now c sid q p)) =
     (case find_item sid (items c) of
        None \<Rightarrow> items c @ [\<lparr>ci_serviceRef = Ref (castObjectId sid), ci_quantity = q, ci_price = p\<rparr>]
      | Some e \<Rightarrow> update_found sid (\<lambda>i. i\<lparr>ci_quantity := fadd (ci_quantity i) q\<rparr>) (items c))"
  by (simp add: addItem_def cart_save_doc_items split: option.splits)

text \<open>
  Two calls of \<open>addItem\<close> with the same service id on one document in memory, the id
  written as the \<open>ObjectId\<close> prints it (its letters in lower case), leave one line for the
  two calls: a new line with the second quantity added to the first, or the two quantities
  added in turn to the line the cart had.
\<close>

lemma addItem_twice_same_document:
  assumes "castObjectId sid = sid"
  shows "items (doc_of (addItem now2 (doc_of (addItem now1 c sid q1 p1)) sid q2 p2)) =
     (case find_item sid (items c) of
        None \<Rightarrow> items c @ [\<lparr>ci_serviceRef = Ref sid, ci_quantity = fadd q1 q2, ci_price = p1\<rparr>]
      | Some e \<Rightarrow> update_found sid
          (\<lambda>i. i\<lparr>ci_quantity := fadd (fadd (ci_quantity i) q1) q2\<rparr>) (items c))"
proof (cases "find_item sid (items c)")
  case None
  then show ?thesis
    using assms
    by (simp add: addItem_doc_items find_item_append_None update_found_append_None ci_service_def)
next
  case (Some e)
  then show ?thesis
    by (simp add: addItem_doc_items find_item_update_found update_found_twice ci_service_def)
qed

text \<open>
  The text of a populated service is never the text of an id: it opens with a brace. On
  the cart that \<open>getOrCreateCart\<close> returns, every line whose service the catalog has is
  populated, so that \<open>find\<close> finds none of them.
\<close>

lemma inspect_service_not_id: "isMongoId sid \<Longrightarrow> inspect_service d \<noteq> sid"
  by (auto simp: inspect_service_def isMongoId_def isHexDigit_def)

lemma find_item_populated:
  assumes "isMongoId sid"
    and "\<forall>item \<in> set (items c). populate_service catalog (ref_id (ci_serviceRef item)) \<noteq> None"
  shows "find_item sid (items (populate_cart catalog c)) = None"
proof -
  have "ci_service (populate_item catalog item) \<noteq> sid" if "item \<in> set (items c)" for item
  proof -
    from assms(2) that obtain d where
      "populate_service catalog (ref_id (ci_serviceRef item)) = Some d" by auto
    then show ?thesis
      using inspect_service_not_id [OF assms(1)]
      by (simp add: populate_item_def ci_service_def)
  qed
  then show ?thesis
    by (auto simp: find_item_def populate_cart_def find_None_iff)
qed

lemma populate_service_id: "populate_service catalog i = Some d \<Longrightarrow> s_id d = i"
  by (auto simp: populate_service_def find_Some_iff)

lemma populate_cart_resolved:
  assumes "\<forall>item \<in> set (items c). populate_service catalog (ref_id (ci_serviceRef item)) \<noteq> None"
  shows "\<not> list_ex (\<lambda>item. populate_service catalog (ref_id (ci_serviceRef item)) = None)
             (items (populate_cart catalog c))"
proof -
  have "populate_service catalog (ref_id (ci_serviceRef (populate_item catalog item))) \<noteq> None"
    if "item \<in> set (items c)" for item
  proof -
    from assms that obtain d where
      d: "populate_service catalog (ref_id (ci_serviceRef item)) = Some d" by auto
    from populate_service_id [OF d] d show ?thesis
      by (simp add: populate_item_def)
  qed
  then show ?thesis
    by (auto simp: populate_cart_def list_ex_iff)
qed

text \<open>
  Through the route, therefore, an addition to a stored cart all of whose services the
  catalog has is a new line, whether the cart has a line of the service or not.
\<close>

lemma post_cart_item_appends:
  assumes "st_carts st uid = Some c"
    and "\<forall>item \<in> set (items c). populate_service (st_services st) (ref_id (ci_serviceRef item)) \<noteq> None"
    and "status (fst (post_cart_item now st uid sid q)) = 200"
  shows "\<exists>service c'. findOne_active (st_services st) sid = Some service
     \<and> st_carts (snd (post_cart_item now st uid sid q)) uid = Some c'
     \<and> length (items c') = Suc (length (items c))
     \<and> last (items c') = \<lparr>ci_serviceRef = Ref (castObjectId sid), ci_quantity = q,
                            ci_price = s_price service\<rparr>"
proof -
  from assms(3) have v: "cart_item_validation_errors sid q = []" "isMongoId sid"
    by (auto simp: post_cart_item_def cart_item_validation_errors_def split: if_splits)
  with assms(3) obtain service where s: "findOne_active (st_services st) sid = Some service"
    by (cases "findOne_active (st_services st) sid") (auto simp: post_cart_item_def)
  let ?cart = "populate_cart (st_services st) c"
  have g: "getOrCreateCart now (st_services st) (st_carts st) uid = (?cart, st_carts st)"
    using assms(1) by (simp add: getOrCreateCart_def)
  have f: "find_item sid (items ?cart) = None"
    using v(2) assms(2) by (rule find_item_populated)
  have n: "\<not> list_ex (\<lambda>item. populate_service (st_services st) (ref_id (ci_serviceRef item))
                            = None) (items ?cart)"
    using assms(2) by (rule populate_cart_resolved)
  let ?new = "?cart\<lparr>items := items ?cart @
      [\<lparr>ci_serviceRef = Ref (castObjectId sid), ci_quantity = q, ci_price = s_price service\<rparr>]\<rparr>"
  have a: "addItem now ?cart sid q (s_price service) = cart_save now ?new"
    using f by (simp add: addItem_def)
  show ?thesis
  proof (cases "cart_valid ?new")
    case True
    then have "post_cart_item now st uid sid q
      = (Reply 200 (s_name service @ '' added to your Vastram cart'')
           (Some (populate_cart (st_services st) (cart_pre_save now ?new))),
         st\<lparr>st_carts := (st_carts st)(uid \<mapsto> depopulate (cart_pre_save now ?new))\<rparr>)"
      using v s g a n by (simp add: post_cart_item_def cart_save_def Let_def)
    then show ?thesis
      using s by (simp add: depopulate_def cart_pre_save_def populate_cart_def)
  next
    case False
    then have "status (fst (post_cart_item now st uid sid q)) = 500"
      using v s g a n by (simp add: post_cart_item_def cart_save_def Let_def)
    with assms(3) show ?thesis by simp
  qed
qed

text \<open>
  Claim C7, as the code has it through its route: the first \<open>POST /api/cart/items\<close> of the
  scenario's account, for 2 pieces of the scenario's service, creates the cart with one
  line; the second, for 3 pieces of the same service, finds no line of that service in the
  populated cart and pushes a second line. Both are answered 200, and the cart that the
  store holds has two lines of the same service, of 2 and of 3 pieces, and not one of 5.
\<close>

theorem C7_post_cart_item_twice_two_lines:
  "status (fst (post_cart_item 5 scenario_store ''64a000000000000000000001''
      ''64b000000000000000000001'' 2)) = 200
   \<and> status (fst (post_cart_item 6
        (snd (post_cart_item 5 scenario_store ''64a000000000000000000001''
           ''64b000000000000000000001'' 2))
        ''64a000000000000000000001'' ''64b000000000000000000001'' 3)) = 200
   \<and> st_carts (snd (post_cart_item 6
        (snd (post_cart_item 5 scenario_store ''64a000000000000000000001''
           ''64b000000000000000000001'' 2))
        ''64a000000000000000000001'' ''64b000000000000000000001'' 3))
        ''64a000000000000000000001''
     = Some \<lparr>cart_user = ''64a000000000000000000001'',
             items = [\<lparr>ci_serviceRef = Ref ''64b000000000000000000001'', ci_quantity = 2,
                       ci_price = 100\<rparr>,
                      \<lparr>ci_serviceRef = Ref ''64b000000000000000000001'', ci_quantity = 3,
                       ci_price = 100\<rparr>],
             totalItems = 5, totalPrice = 500, lastUpdated = 6\<rparr>"
  by (simp add: post_cart_item_def cart_item_validation_errors_def scenario_store_def scenario_service_def scenario_retired_def
      isMongoId_def isHexDigit_def isInt_def findOne_active_def castObjectId_def
      getOrCreateCart_def new_cart_def cart_save_def cart_valid_def cartItem_valid_def
      cart_pre_save_def addItem_def find_item_def ci_service_def inspect_service_def
      populate_cart_def populate_item_def populate_service_def depopulate_def Let_def
      fadd_def fmul_def binary64_numeral)





lemma cart_save_Saved_bounds:
  "cart_save now d = Saved c' \<Longrightarrow> i \<in> set (items c') \<Longrightarrow>
   1 \<le> ci_quantity i \<and> ci_quantity i \<le> 50"
  by (auto dest!: cart_save_Saved
      simp: cart_valid_def cart_pre_save_items list_all_iff cartItem_valid_def)




lemma update_found_mem:
  "find_item sid xs = Some e \<Longrightarrow> f e \<in> set (update_found sid f xs)"
  by (induction xs) (auto simp: find_item_def split: if_splits)

text \<open>
  On one document in memory whose line of the service \<open>find\<close> does find, an \<open>addItem\<close> that
  brings the quantity of that line above 50 is rejected by the save.
\<close>

lemma addItem_exceeds:
  assumes "find_item sid (items c) = Some e" and "fadd (ci_quantity e) q > 50"
  shows "addItem now c sid q p = ValidationError
           (c\<lparr>items := update_found sid (\<lambda>i. i\<lparr>ci_quantity := fadd (ci_quantity i) q\<rparr>) (items c)\<rparr>)"
proof -
  let ?f = "\<lambda>i. i\<lparr>ci_quantity := fadd (ci_quantity i) q\<rparr>"
  have "?f e \<in> set (update_found sid ?f (items c))"
    using assms(1) by (rule update_found_mem)
  moreover have "\<not> cartItem_valid (?f e)"
    using assms(2) by (simp add: cartItem_valid_def)
  ultimately have "\<not> cart_valid (c\<lparr>items := update_found sid ?f (items c)\<rparr>)"
    by (auto simp: cart_valid_def list_all_iff)
  then show ?thesis
    using assms(1) by (simp add: addItem_def cart_save_def)
qed

text \<open>
  Claim C10, as the code has it through its route: the scenario's account has a cart with
  a line of 30 pieces of the scenario's service; \<open>POST /api/cart/items\<close> for 30 more pieces
  of that service is answered 200, not rejected, and the cart that the store then holds
  has two lines of 30 pieces of the service, 60 pieces in all. (Each line of a cart that a
  save writes is between 1 and 50: the validators bear on a line, and the addition was
  not merged into the line.)
\<close>

theorem C10_post_cart_item_beyond_50:
  "status (fst (post_cart_item 6 scenario_with_cart ''64a000000000000000000001''
      ''64b000000000000000000001'' 30)) = 200
   \<and> st_carts (snd (post_cart_item 6 scenario_with_cart ''64a000000000000000000001''
        ''64b000000000000000000001'' 30)) ''64a000000000000000000001''
     = Some \<lparr>cart_user = ''64a000000000000000000001'',
             items = [\<lparr>ci_serviceRef = Ref ''64b000000000000000000001'', ci_quantity = 30,
                       ci_price = 100\<rparr>,
                      \<lparr>ci_serviceRef = Ref ''64b000000000000000000001'', ci_quantity = 30,
                       ci_price = 100\<rparr>],
             totalItems = 60, totalPrice = 6000, lastUpdated = 6\<rparr>"
  by (simp add: post_cart_item_def cart_item_validation_errors_def scenario_with_cart_def scenario_cart_def scenario_store_def
      scenario_service_def scenario_retired_def
      isMongoId_def isHexDigit_def isInt_def findOne_active_def castObjectId_def
      getOrCreateCart_def new_cart_def cart_save_def cart_valid_def cartItem_valid_def
      cart_pre_save_def addItem_def find_item_def ci_service_def inspect_service_def
      populate_cart_def populate_item_def populate_service_def depopulate_def Let_def
      fadd_def fmul_def binary64_numeral)



section \<open>Saving an order\<close>

lemma order_pre_save_fields:
  "order_id (order_pre_save g ord) = order_id ord"
  "o_customer (order_pre_save g ord) = o_customer ord"
  "o_items (order_pre_save g ord) = o_items ord"
  "o_subtotal (order_pre_save g ord) = o_subtotal ord"
  "o_tax (order_pre_save g ord) = o_tax ord"
  "o_total (order_pre_save g ord) = o_total ord"
  "o_status (order_pre_save g ord) = o_status ord"
  "o_rating (order_pre_save g ord) = o_rating ord"
  "o_review (order_pre_save g ord) = o_review ord"
  by (simp_all add: order_pre_save_def Let_def)

lemma order_save_Saved:
  "order_save g ord = Saved o1 \<Longrightarrow> o1 = order_pre_save g ord \<and> order_valid ord"
  by (auto simp: order_save_def split: if_splits)

lemma addTrackingUpdate_Saved:
  "addTrackingUpdate now g ord s msg = Saved o1 \<Longrightarrow>
   order_id o1 = order_id ord \<and> o_customer o1 = o_customer ord \<and> o_items o1 = o_items ord
   \<and> o_subtotal o1 = o_subtotal ord \<and> o_tax o1 = o_tax ord \<and> o_total o1 = o_total ord
   \<and> o_status o1 = s \<and> o_rating o1 = o_rating ord \<and> o_review o1 = o_review ord"
  by (auto simp: addTrackingUpdate_def order_pre_save_fields dest!: order_save_Saved)

lemma addTrackingUpdate_valid:
  "order_valid ord \<Longrightarrow> \<exists>o1. addTrackingUpdate now g ord s msg = Saved o1"
  by (simp add: addTrackingUpdate_def order_save_def order_valid_def)


section \<open>Checkout\<close>


text \<open>The one path of the handler that answers 201.\<close>

lemma create_order_201:
  assumes "status (fst (create_order now oid generated st uid req)) = 201"
  shows "\<exists>lines subtotal o1 o2 u d.
           req_pickupDate req = ValidDate d
         \<and> order_lines (st_services st) (req_items req) [] 0 = Inr (lines, subtotal)
         \<and> order_save generated (new_order oid generated uid lines subtotal
              (Math_round (fmul subtotal (binary64 (18 / 100))))
              (fadd subtotal (Math_round (fmul subtotal (binary64 (18 / 100)))))
              (trim (req_pickupAddress req)) d (req_pickupTime req)
              (trim (req_deliveryAddress req)) (req_specialInstructions req)) = Saved o1
         \<and> addTrackingUpdate now generated o1 Pending
              ''Order placed successfully. Waiting for confirmation.'' = Saved o2
         \<and> payload (fst (create_order now oid generated st uid req)) = Some o2
         \<and> st_orders (snd (create_order now oid generated st uid req)) oid = Some o2
         \<and> st_users st uid = Some u
         \<and> st_users (snd (create_order now oid generated st uid req)) uid
             = Some (update_user_statistics
                      (fadd subtotal (Math_round (fmul subtotal (binary64 (18 / 100))))) u)"
  using assms
  by (auto simp: create_order_def Let_def
      split: if_splits option.splits sum.splits prod.splits save_result.splits pickup_date.splits)








text \<open>The scenario of the spec: two pieces at 100 give 200, a tax of 36 and a total of 236.\<close>

lemma tax_of_200:
  "fmul 200 (binary64 (18 / 100)) = 36"
  "fmul 200 (binary64 (9 / 50)) = 36"
  by (simp_all add: literal_0_18 fmul_def binary64_def scale_up.simps round_half_even_def)

lemma scenario_checkout:
  "create_order 1700000000000 ''64c000000000000000000001'' ''VAST-1700000000000-007''
      scenario_store ''64a000000000000000000001'' scenario_request
   = (Reply 201 ''Vastram order placed successfully! We will contact you soon for pickup confirmation.''
        (Some scenario_order),
      scenario_store\<lparr>st_orders := [''64c000000000000000000001'' \<mapsto> scenario_order],
        st_users := [''64a000000000000000000001'' \<mapsto>
           scenario_user\<lparr>totalOrders := 1, totalSpent := 236\<rparr>]\<rparr>)"
proof -
  have n: "fmul 100 2 = 200" "fadd 0 200 = 200" "fadd 200 36 = 236" "fadd 0 236 = 236"
    "fadd 0 1 = 1" "Math_round 36 = 36"
    by (simp_all add: fmul_def fadd_def binary64_numeral Math_round_def)
  show ?thesis
    by (simp add: create_order_def order_validation_errors_def scenario_request_def
      scenario_store_def scenario_service_def scenario_retired_def scenario_user_def
      scenario_order_def isMongoId_def isHexDigit_def isInt_def trim_def isSpace_def
      isLength_def isDigit_def findOne_active_def castObjectId_def order_save_def order_valid_def
      orderItem_valid_def max_length_def order_pre_save_def addTrackingUpdate_def
      new_order_def Let_def update_user_statistics_def
      updateMembershipTier_def new_user_def clear_cart_of_def n tax_of_200)
qed






text \<open>
  A pickup date that passes \<open>isISO8601\<close> and that \<open>new Date\<close> cannot read is not answered
  400: when the rest of the request is valid and its services are active, the save of the
  order rejects the date, the handler answers 500, and the store is the store before it.
\<close>

lemma create_order_unreadable_date:
  assumes "order_validation_errors req = []" and "req_pickupDate req = InvalidDate"
    and "\<forall>item \<in> set (req_items req). findOne_active (st_services st) (ir_service item) \<noteq> None"
  shows "status (fst (create_order now oid generated st uid req)) = 500
         \<and> snd (create_order now oid generated st uid req) = st"
proof (cases "order_lines (st_services st) (req_items req) [] 0")
  case (Inl missing)
  have "\<exists>lines subtotal. order_lines (st_services st) its acc sub = Inr (lines, subtotal)"
    if "\<forall>item \<in> set its. findOne_active (st_services st) (ir_service item) \<noteq> None"
    for its acc sub
    using that by (induction its arbitrary: acc sub) (auto simp: Let_def)
  from this [OF assms(3), of "[]" 0] Inl show ?thesis by simp
next
  case (Inr r)
  with assms(1,2) show ?thesis
    by (cases r) (simp add: create_order_def Let_def)
qed






section \<open>Review\<close>

lemma isInt_1_5_truthy: "isInt rating 1 5 \<Longrightarrow> truthy_number (Some rating)"
  by (auto simp: isInt_def truthy_number_def)

text \<open>The one path of the review handler that answers 200.\<close>

lemma add_review_200:
  assumes "add_review g st uid oid rating review = (r, st')" and "status r = 200"
  shows "\<exists>ord o1. st_orders st oid = Some ord \<and> o_customer ord = uid \<and> o_status ord = Delivered
           \<and> \<not> truthy_number (o_rating ord) \<and> isInt rating 1 5 \<and> max_length 500 review
           \<and> order_save g (ord\<lparr>o_rating := Some rating, o_review := review\<rparr>) = Saved o1
           \<and> st' = st\<lparr>st_orders := (st_orders st)(oid \<mapsto> o1)\<rparr>"
  using assms
  by (auto simp: add_review_def split: if_splits option.splits save_result.splits)

lemma add_review_rated:
  assumes "st_orders st oid = Some ord" and "truthy_number (o_rating ord)"
  shows "status (fst (add_review g st uid oid rating review)) \<in> {400, 404}
         \<and> snd (add_review g st uid oid rating review) = st
         \<and> (isInt rating 1 5 \<and> max_length 500 review \<and> o_customer ord = uid \<and> o_status ord = Delivered
              \<longrightarrow> fst (add_review g st uid oid rating review)
                    = Reply 400 ''Order has already been reviewed'' None)"
  using assms by (simp add: add_review_def)

text \<open>What each handler can do to the order collection.\<close>

lemma update_order_status_effect:
  "snd (update_order_status now g st j s msg) = st
   \<or> (\<exists>ord o1. st_orders st j = Some ord \<and> o_rating o1 = o_rating ord \<and> o_review o1 = o_review ord
          \<and> snd (update_order_status now g st j s msg) = st\<lparr>st_orders := (st_orders st)(j \<mapsto> o1)\<rparr>)"
proof (cases "max_length 200 msg")
  case False
  then show ?thesis by (simp add: update_order_status_def)
next
  case len: True
  show ?thesis
  proof (cases "st_orders st j")
    case None
    with len show ?thesis by (simp add: update_order_status_def)
  next
    case (Some ord)
    let ?m = "if truthy_string msg then the msg
              else case statusMessages s of Some m \<Rightarrow> m | None \<Rightarrow> ''Order status updated to pending''"
    have u: "update_order_status now g st j s msg =
          (case addTrackingUpdate now g ord s ?m of
             ValidationError d \<Rightarrow> (Reply 500 ''Failed to update Vastram order status'' None, st)
           | Saved o1 \<Rightarrow>
               (if s = Delivered
                then (case order_save g (o1\<lparr>o_actualDelivery := Some now\<rparr>) of
                        ValidationError d \<Rightarrow>
                          (Reply 500 ''Failed to update Vastram order status'' None,
                           st\<lparr>st_orders := (st_orders st)(j \<mapsto> o1)\<rparr>)
                      | Saved o2 \<Rightarrow>
                          (Reply 200 ''Vastram order status updated successfully'' (Some o2),
                           st\<lparr>st_orders := (st_orders st)(j \<mapsto> o2)\<rparr>))
                else (Reply 200 ''Vastram order status updated successfully'' (Some o1),
                      st\<lparr>st_orders := (st_orders st)(j \<mapsto> o1)\<rparr>)))"
      using len Some unfolding update_order_status_def Let_def by simp
    show ?thesis
    proof (cases "addTrackingUpdate now g ord s ?m")
      case (ValidationError d)
      then show ?thesis by (simp add: u)
    next
      case (Saved o1)
      from addTrackingUpdate_Saved [OF Saved]
      have r1: "o_rating o1 = o_rating ord" "o_review o1 = o_review ord" by simp_all
      show ?thesis
      proof (cases "order_save g (o1\<lparr>o_actualDelivery := Some now\<rparr>)")
        case (ValidationError d)
        have "snd (update_order_status now g st j s msg) = st\<lparr>st_orders := (st_orders st)(j \<mapsto> o1)\<rparr>"
          by (simp add: u Saved ValidationError)
        with Some r1 show ?thesis by blast
      next
        case s2: (Saved o2)
        from order_save_Saved [OF s2] r1
        have r2: "o_rating o2 = o_rating ord" "o_review o2 = o_review ord"
          by (simp_all add: order_pre_save_fields)
        have "snd (update_order_status now g st j s msg) =
                st\<lparr>st_orders := (st_orders st)(j \<mapsto> (if s = Delivered then o2 else o1))\<rparr>"
          by (simp add: u Saved s2)
        with Some r1 r2 show ?thesis by (cases "s = Delivered") auto
      qed
    qed
  qed
qed

lemma update_order_status_rating:
  assumes "st_orders st k = Some ord"
  shows "\<exists>ord'. st_orders (snd (update_order_status now g st j s msg)) k = Some ord'
           \<and> o_rating ord' = o_rating ord \<and> o_review ord' = o_review ord"
  using update_order_status_effect [of now g st j s msg] assms
  by (cases "k = j") auto

lemma cancel_order_effect:
  "snd (cancel_order now g st caller j) = st
   \<or> (\<exists>ord o1. st_orders st j = Some ord \<and> o_rating o1 = o_rating ord \<and> o_review o1 = o_review ord
          \<and> o_status ord \<in> {Pending, Confirmed} \<and> o_status o1 = Cancelled
          \<and> status (fst (cancel_order now g st caller j)) = 200
          \<and> snd (cancel_order now g st caller j) = st\<lparr>st_orders := (st_orders st)(j \<mapsto> o1)\<rparr>)"
proof (cases "st_orders st j")
  case None
  then show ?thesis by (simp add: cancel_order_def)
next
  case (Some ord)
  show ?thesis
  proof (cases "(role caller \<noteq> admin \<and> o_customer ord \<noteq> user_id caller)
                \<or> o_status ord \<notin> set [Pending, Confirmed]")
    case True
    with Some show ?thesis by (auto simp: cancel_order_def)
  next
    case ok: False
    show ?thesis
    proof (cases "addTrackingUpdate now g ord Cancelled ''Order cancelled by customer request.''")
      case (ValidationError d)
      with Some ok show ?thesis by (simp add: cancel_order_def)
    next
      case (Saved o1)
      from Some ok Saved have
        "status (fst (cancel_order now g st caller j)) = 200
         \<and> snd (cancel_order now g st caller j) = st\<lparr>st_orders := (st_orders st)(j \<mapsto> o1)\<rparr>"
        by (simp add: cancel_order_def)
      with addTrackingUpdate_Saved [OF Saved] Some ok show ?thesis by auto
    qed
  qed
qed

lemma cancel_order_rating:
  assumes "st_orders st k = Some ord"
  shows "\<exists>ord'. st_orders (snd (cancel_order now g st caller j)) k = Some ord'
           \<and> o_rating ord' = o_rating ord \<and> o_review ord' = o_review ord"
  using cancel_order_effect [of now g st caller j] assms
  by (cases "k = j") auto

lemma add_review_rating:
  assumes "st_orders st k = Some ord" and "truthy_number (o_rating ord)"
  shows "\<exists>ord'. st_orders (snd (add_review g st uid j rating review)) k = Some ord'
           \<and> o_rating ord' = o_rating ord \<and> o_review ord' = o_review ord"
proof (cases "status (fst (add_review g st uid j rating review)) = 200")
  case True
  from add_review_200 [OF prod.collapse [symmetric] True] obtain ordj o1 where
    j: "st_orders st j = Some ordj" "\<not> truthy_number (o_rating ordj)"
       "snd (add_review g st uid j rating review) = st\<lparr>st_orders := (st_orders st)(j \<mapsto> o1)\<rparr>"
    by blast
  with assms have "k \<noteq> j" by auto
  with j(3) assms(1) show ?thesis by simp
next
  case False
  have "snd (add_review g st uid j rating review) = st"
    using False
    by (auto simp: add_review_def split: if_splits option.splits save_result.splits)
  with assms(1) show ?thesis by simp
qed

lemma create_order_others:
  assumes "k \<noteq> oid"
  shows "st_orders (snd (create_order now oid g st uid req)) k = st_orders st k"
  using assms unfolding create_order_def Let_def
  by (simp split: option.split sum.split prod.split save_result.split pickup_date.split)

text \<open>
  No request to the order routes changes a rating that is set, given that the identifier
  generated for a new order is not the identifier of a stored one.
\<close>

lemma rating_kept:
  assumes "st_orders st k = Some ord" and "truthy_number (o_rating ord)" and "st_orders st oid = None"
  shows "\<exists>ord'. st_orders (snd (handle_order_request now oid g st rq)) k = Some ord'
           \<and> o_rating ord' = o_rating ord \<and> o_review ord' = o_review ord"
proof (cases rq)
  case (PostOrder uid req)
  from assms have "k \<noteq> oid" by auto
  from create_order_others [OF this, of now g st uid req] assms(1) PostOrder show ?thesis
    by (simp add: case_prod_beta)
next
  case (PutOrderStatus j s msg)
  with update_order_status_rating [OF assms(1)] show ?thesis
    by (simp add: case_prod_beta)
next
  case (PostReview uid j rating review)
  with add_review_rating [OF assms(1,2)] show ?thesis
    by (simp add: case_prod_beta)
next
  case (DeleteOrder caller j)
  with cancel_order_rating [OF assms(1)] show ?thesis
    by (simp add: case_prod_beta)
qed

text \<open>
  Claim C5: a review is accepted (the reply is 200) only for an order of the caller whose
  status is delivered and whose rating is not set (absent, for an order that satisfies the
  schema); the order then stores the rating and the review text. After that, any further
  review of the same order, by anyone and with any rating, is answered 400 or 404 and
  leaves the store as it is (the same customer with a well-formed review gets 400, "Order
  has already been reviewed"), and whatever request the order routes handle next, the
  stored rating and review stay what they are.
\<close>

theorem C5_review_once:
  assumes "add_review g st uid oid rating review = (r, st')" and "status r = 200"
  shows "(\<exists>ord. st_orders st oid = Some ord \<and> o_customer ord = uid \<and> o_status ord = Delivered
            \<and> \<not> truthy_number (o_rating ord) \<and> (order_valid ord \<longrightarrow> o_rating ord = None))
         \<and> (\<exists>ord'. st_orders st' oid = Some ord' \<and> o_rating ord' = Some rating
                \<and> o_review ord' = review \<and> o_status ord' = Delivered)
         \<and> status (fst (add_review g2 st' uid2 oid rating2 review2)) \<in> {400, 404}
         \<and> snd (add_review g2 st' uid2 oid rating2 review2) = st'
         \<and> (isInt rating2 1 5 \<and> max_length 500 review2 \<longrightarrow>
              fst (add_review g2 st' uid oid rating2 review2)
                = Reply 400 ''Order has already been reviewed'' None)
         \<and> (st_orders st' fresh = None \<longrightarrow>
              (\<exists>ord''. st_orders (snd (handle_order_request now2 fresh g2 st' rq)) oid = Some ord''
                  \<and> o_rating ord'' = Some rating \<and> o_review ord'' = review))"
proof -
  from add_review_200 [OF assms] obtain ord o1 where
    o: "st_orders st oid = Some ord" "o_customer ord = uid" "o_status ord = Delivered"
       "\<not> truthy_number (o_rating ord)" "isInt rating 1 5"
       "order_save g (ord\<lparr>o_rating := Some rating, o_review := review\<rparr>) = Saved o1"
       "st' = st\<lparr>st_orders := (st_orders st)(oid \<mapsto> o1)\<rparr>"
    by blast
  from order_save_Saved [OF o(6)] have
    f: "o_rating o1 = Some rating" "o_review o1 = review" "o_status o1 = Delivered"
       "o_customer o1 = uid"
    using o(2,3) by (simp_all add: order_pre_save_fields)
  have s: "st_orders st' oid = Some o1" using o(7) by simp
  have t: "truthy_number (o_rating o1)" using f(1) o(5) by (simp add: isInt_1_5_truthy)
  have v: "order_valid ord \<longrightarrow> o_rating ord = None"
    using o(4) by (auto simp: order_valid_def truthy_number_def split: option.splits)
  have k: "st_orders st' fresh = None \<longrightarrow>
              (\<exists>ord''. st_orders (snd (handle_order_request now2 fresh g2 st' rq)) oid = Some ord''
                  \<and> o_rating ord'' = Some rating \<and> o_review ord'' = review)"
    using rating_kept [OF s t, of fresh now2 g2 rq] f(1,2) by simp
  from add_review_rated [OF s t, of g2 uid2 rating2 review2]
       add_review_rated [OF s t, of g2 uid rating2 review2] o(1-4) v s f k
  show ?thesis by auto
qed

theorem C5_review_once_witness:
  "status (fst (add_review ''VAST-1700000000000-007'' (scenario_with Delivered)
       ''64a000000000000000000001'' ''64c000000000000000000001'' 5 (Some ''Spotless.''))) = 200
   \<and> fst (add_review ''VAST-1700000000000-007''
         (snd (add_review ''VAST-1700000000000-007'' (scenario_with Delivered)
            ''64a000000000000000000001'' ''64c000000000000000000001'' 5 (Some ''Spotless.'')))
         ''64a000000000000000000001'' ''64c000000000000000000001'' 1 None)
       = Reply 400 ''Order has already been reviewed'' None
   \<and> snd (add_review ''VAST-1700000000000-007''
         (snd (add_review ''VAST-1700000000000-007'' (scenario_with Delivered)
            ''64a000000000000000000001'' ''64c000000000000000000001'' 5 (Some ''Spotless.'')))
         ''64a000000000000000000001'' ''64c000000000000000000001'' 1 None)
       = snd (add_review ''VAST-1700000000000-007'' (scenario_with Delivered)
            ''64a000000000000000000001'' ''64c000000000000000000001'' 5 (Some ''Spotless.''))
   \<and> (\<exists>ord'. st_orders (snd (add_review ''VAST-1700000000000-007'' (scenario_with Delivered)
            ''64a000000000000000000001'' ''64c000000000000000000001'' 5 (Some ''Spotless.'')))
          ''64c000000000000000000001'' = Some ord' \<and> o_rating ord' = Some 5)"
proof -
  have h: "status (fst (add_review ''VAST-1700000000000-007'' (scenario_with Delivered)
       ''64a000000000000000000001'' ''64c000000000000000000001'' 5 (Some ''Spotless.''))) = 200"
    by (simp add: add_review_def scenario_with_def scenario_store_def scenario_order_def
        isInt_def max_length_def truthy_number_def order_save_def order_valid_def
        orderItem_valid_def)
  have i: "isInt 1 1 5 \<and> max_length 500 None"
    by (simp add: isInt_def max_length_def)
  note c = C5_review_once [OF prod.collapse [symmetric] h,
      where ?g2.0 = "''VAST-1700000000000-007''" and ?uid2.0 = "''64a000000000000000000001''"
        and ?rating2.0 = 1 and ?review2.0 = None and fresh = "''64c000000000000000000002''"
        and ?now2.0 = 1700000900000
        and rq = "DeleteOrder scenario_user ''64c000000000000000000001''"]
  from c have "\<exists>ord'. st_orders (snd (add_review ''VAST-1700000000000-007'' (scenario_with Delivered)
            ''64a000000000000000000001'' ''64c000000000000000000001'' 5 (Some ''Spotless.'')))
          ''64c000000000000000000001'' = Some ord' \<and> o_rating ord' = Some 5"
    by blast
  moreover from c i have "fst (add_review ''VAST-1700000000000-007''
         (snd (add_review ''VAST-1700000000000-007'' (scenario_with Delivered)
            ''64a000000000000000000001'' ''64c000000000000000000001'' 5 (Some ''Spotless.'')))
         ''64a000000000000000000001'' ''64c000000000000000000001'' 1 None)
       = Reply 400 ''Order has already been reviewed'' None"
    by blast
  moreover from c have "snd (add_review ''VAST-1700000000000-007''
         (snd (add_review ''VAST-1700000000000-007'' (scenario_with Delivered)
            ''64a000000000000000000001'' ''64c000000000000000000001'' 5 (Some ''Spotless.'')))
         ''64a000000000000000000001'' ''64c000000000000000000001'' 1 None)
       = snd (add_review ''VAST-1700000000000-007'' (scenario_with Delivered)
            ''64a000000000000000000001'' ''64c000000000000000000001'' 5 (Some ''Spotless.''))"
    by blast
  ultimately show ?thesis using h by blast
qed


section \<open>Cancellation\<close>

lemma cancel_order_rejects:
  assumes "st_orders st oid = Some ord" and "o_status ord \<notin> {Pending, Confirmed}"
  shows "status (fst (cancel_order now g st caller oid)) \<in> {400, 404}
         \<and> snd (cancel_order now g st caller oid) = st
         \<and> (role caller = admin \<or> o_customer ord = user_id caller \<longrightarrow>
               status (fst (cancel_order now g st caller oid)) = 400)"
  using assms by (simp add: cancel_order_def)

lemma cancel_order_accepts:
  assumes "st_orders st oid = Some ord" and "o_status ord \<in> {Pending, Confirmed}"
    and "order_valid ord" and "role caller = admin \<or> o_customer ord = user_id caller"
  shows "status (fst (cancel_order now g st caller oid)) = 200"
proof -
  from addTrackingUpdate_valid [OF assms(3)] obtain o1 where
    "addTrackingUpdate now g ord Cancelled ''Order cancelled by customer request.'' = Saved o1"
    by blast
  with assms(1,2,4) show ?thesis by (auto simp: cancel_order_def)
qed

lemma cancel_order_200:
  assumes "st_orders st oid = Some ord" and "status (fst (cancel_order now g st caller oid)) = 200"
  shows "o_status ord \<in> {Pending, Confirmed}
         \<and> (\<exists>ord'. st_orders (snd (cancel_order now g st caller oid)) oid = Some ord'
               \<and> o_status ord' = Cancelled)"
proof (cases "(role caller \<noteq> admin \<and> o_customer ord \<noteq> user_id caller)
              \<or> o_status ord \<notin> set [Pending, Confirmed]")
  case True
  with assms show ?thesis by (auto simp: cancel_order_def split: if_splits)
next
  case ok: False
  show ?thesis
  proof (cases "addTrackingUpdate now g ord Cancelled ''Order cancelled by customer request.''")
    case (ValidationError d)
    with assms ok show ?thesis by (auto simp: cancel_order_def split: if_splits)
  next
    case (Saved o1)
    from assms(1) ok Saved have
      "snd (cancel_order now g st caller oid) = st\<lparr>st_orders := (st_orders st)(oid \<mapsto> o1)\<rparr>"
      by (auto simp: cancel_order_def)
    with addTrackingUpdate_Saved [OF Saved] ok show ?thesis by simp
  qed
qed

lemma cancel_order_unknown:
  "st_orders st oid = None \<Longrightarrow>
   cancel_order now g st caller oid = (Reply 404 ''Vastram order not found'' None, st)"
  by (simp add: cancel_order_def)

text \<open>
  Claim C6: for an order in the store, the cancellation is accepted (the reply is 200) only
  when the status of the order is pending or confirmed, and the order is then cancelled;
  in any other status the request is answered with an error (400 for the customer of the
  order and for an admin, 404 for anyone else) and the store, hence the status of the
  order, is unchanged; and the customer's (or an admin's) cancellation of a pending or
  confirmed order that satisfies the schema is accepted.
\<close>

theorem C6_cancel_only_pending_or_confirmed:
  assumes "st_orders st oid = Some ord"
  shows "(status (fst (cancel_order now g st caller oid)) = 200 \<longrightarrow>
            o_status ord \<in> {Pending, Confirmed}
            \<and> (\<exists>ord'. st_orders (snd (cancel_order now g st caller oid)) oid = Some ord'
                  \<and> o_status ord' = Cancelled))
         \<and> (o_status ord \<notin> {Pending, Confirmed} \<longrightarrow>
              status (fst (cancel_order now g st caller oid)) \<in> {400, 404}
              \<and> snd (cancel_order now g st caller oid) = st
              \<and> (role caller = admin \<or> o_customer ord = user_id caller \<longrightarrow>
                   status (fst (cancel_order now g st caller oid)) = 400))
         \<and> (o_status ord \<in> {Pending, Confirmed} \<and> order_valid ord
              \<and> (role caller = admin \<or> o_customer ord = user_id caller) \<longrightarrow>
              status (fst (cancel_order now g st caller oid)) = 200)"
  using cancel_order_200 [OF assms] cancel_order_rejects [OF assms] cancel_order_accepts [OF assms]
  by blast

theorem C6_cancel_only_pending_or_confirmed_witness:
  "st_orders (scenario_with Pending) ''64c000000000000000000001''
     = Some (scenario_order\<lparr>o_status := Pending\<rparr>)
   \<and> status (fst (cancel_order 1700000500000 ''VAST-1700000500000-001'' (scenario_with Pending)
        scenario_user ''64c000000000000000000001'')) = 200
   \<and> (\<exists>ord'. st_orders (snd (cancel_order 1700000500000 ''VAST-1700000500000-001''
        (scenario_with Pending) scenario_user ''64c000000000000000000001''))
          ''64c000000000000000000001'' = Some ord' \<and> o_status ord' = Cancelled)
   \<and> st_orders (scenario_with PickedUp) ''64c000000000000000000001''
     = Some (scenario_order\<lparr>o_status := PickedUp\<rparr>)
   \<and> status (fst (cancel_order 1700000500000 ''VAST-1700000500000-001'' (scenario_with PickedUp)
        scenario_user ''64c000000000000000000001'')) = 400
   \<and> snd (cancel_order 1700000500000 ''VAST-1700000500000-001'' (scenario_with PickedUp)
        scenario_user ''64c000000000000000000001'') = scenario_with PickedUp"
proof -
  have p: "st_orders (scenario_with Pending) ''64c000000000000000000001''
     = Some (scenario_order\<lparr>o_status := Pending\<rparr>)"
    by (simp add: scenario_with_def)
  have q: "st_orders (scenario_with PickedUp) ''64c000000000000000000001''
     = Some (scenario_order\<lparr>o_status := PickedUp\<rparr>)"
    by (simp add: scenario_with_def)
  have v: "o_status (scenario_order\<lparr>o_status := Pending\<rparr>) \<in> {Pending, Confirmed}
      \<and> order_valid (scenario_order\<lparr>o_status := Pending\<rparr>)
      \<and> o_customer (scenario_order\<lparr>o_status := Pending\<rparr>) = user_id scenario_user"
    by (simp add: scenario_order_def scenario_user_def new_user_def order_valid_def
        orderItem_valid_def max_length_def)
  have w: "o_status (scenario_order\<lparr>o_status := PickedUp\<rparr>) \<notin> {Pending, Confirmed}
      \<and> o_customer (scenario_order\<lparr>o_status := PickedUp\<rparr>) = user_id scenario_user"
    by (simp add: scenario_order_def scenario_user_def new_user_def)
  from C6_cancel_only_pending_or_confirmed [OF p, of 1700000500000 "''VAST-1700000500000-001''" scenario_user]
       C6_cancel_only_pending_or_confirmed [OF q, of 1700000500000 "''VAST-1700000500000-001''" scenario_user]
       p q v w
  show ?thesis by simp
qed




section \<open>Membership tier\<close>

lemma updateMembershipTier_tier:
  "membershipTier (updateMembershipTier u) = spec_tier (totalSpent u)"
  by (simp add: updateMembershipTier_def spec_tier_def)

lemma updateMembershipTier_totalSpent:
  "totalSpent (updateMembershipTier u) = totalSpent u"
  by (simp add: updateMembershipTier_def)

lemma update_user_statistics_consistent:
  "tier_consistent (update_user_statistics amount u)
   \<and> totalSpent (update_user_statistics amount u) = fadd (totalSpent u) amount
   \<and> totalOrders (update_user_statistics amount u) = fadd (totalOrders u) 1"
  by (simp add: tier_consistent_def update_user_statistics_def updateMembershipTier_tier
      updateMembershipTier_totalSpent)
     (simp add: updateMembershipTier_def)

text \<open>The account after a checkout that succeeded.\<close>

lemma checkout_account:
  assumes "status (fst (create_order now oid generated st uid req)) = 201"
  shows "\<exists>u u' ord. st_users st uid = Some u
           \<and> payload (fst (create_order now oid generated st uid req)) = Some ord
           \<and> st_users (snd (create_order now oid generated st uid req)) uid = Some u'
           \<and> tier_consistent u' \<and> totalSpent u' = fadd (totalSpent u) (o_total ord)"
proof -
  from create_order_201 [OF assms] obtain lines subtotal o1 o2 u d where
    s: "order_save generated (new_order oid generated uid lines subtotal
              (Math_round (fmul subtotal (binary64 (18 / 100))))
              (fadd subtotal (Math_round (fmul subtotal (binary64 (18 / 100)))))
              (trim (req_pickupAddress req)) d (req_pickupTime req)
              (trim (req_deliveryAddress req)) (req_specialInstructions req)) = Saved o1" and
    t: "addTrackingUpdate now generated o1 Pending
              ''Order placed successfully. Waiting for confirmation.'' = Saved o2" and
    p: "payload (fst (create_order now oid generated st uid req)) = Some o2" and
    u: "st_users st uid = Some u"
       "st_users (snd (create_order now oid generated st uid req)) uid
          = Some (update_user_statistics
                    (fadd subtotal (Math_round (fmul subtotal (binary64 (18 / 100))))) u)"
    by blast
  from order_save_Saved [OF s] addTrackingUpdate_Saved [OF t]
  have "o_total o2 = fadd subtotal (Math_round (fmul subtotal (binary64 (18 / 100))))"
    by (simp add: order_pre_save_fields new_order_def)
  with p u update_user_statistics_consistent
         [of "fadd subtotal (Math_round (fmul subtotal (binary64 (18 / 100))))" u]
  show ?thesis by simp
qed

text \<open>
  Claim C3, as stated: after every mutation of an account, \<open>membershipTier\<close> is the tier
  implied by \<open>totalSpent\<close>. The admin route \<open>PUT /api/users/:id/membership\<close> is a mutation
  that breaks it: the account of the scenario, which has spent nothing, set to gold is gold
  with \<open>totalSpent = 0\<close>.
\<close>

theorem C3_put_membership_counterexample:
  "\<not> tier_consistent (put_membership gold scenario_user)"
  by (simp add: tier_consistent_def put_membership_def scenario_user_def new_user_def
      spec_tier_def)

text \<open>
  Claim C3, amended: a new account is consistent; the statistics update of a checkout (the
  only mutation of \<open>totalSpent\<close>) recomputes the tier, so the account stored by a
  successful checkout has the tier implied by its new \<open>totalSpent\<close>, whatever it had
  before (the new \<open>totalSpent\<close> is the binary64 sum of the old one and the total of the
  order, which is the exact sum for whole amounts below \<open>2 ^ 53\<close>); login, profile
  update and (de)activation change neither field and keep a consistent account
  consistent; the admin membership route stores the requested tier and leaves
  \<open>totalSpent\<close> alone.
\<close>

theorem C3_tier_after_mutation:
  "tier_consistent (new_user uid nm em ph ad)
   \<and> tier_consistent (update_user_statistics amount u)
   \<and> totalSpent (update_user_statistics amount u) = fadd (totalSpent u) amount
   \<and> (whole (totalSpent u) \<and> whole amount \<and> totalSpent u + amount < 2 ^ 53 \<longrightarrow>
        totalSpent (update_user_statistics amount u) = totalSpent u + amount)
   \<and> (status (fst (create_order now oid generated st caller req)) = 201 \<longrightarrow>
        (\<exists>u0 u' ord. st_users st caller = Some u0
           \<and> payload (fst (create_order now oid generated st caller req)) = Some ord
           \<and> st_users (snd (create_order now oid generated st caller req)) caller = Some u'
           \<and> tier_consistent u' \<and> totalSpent u' = fadd (totalSpent u0) (o_total ord)))
   \<and> (tier_consistent u \<longrightarrow>
        tier_consistent (login_update now u)
        \<and> tier_consistent (profile_update pn pp pa u)
        \<and> tier_consistent (put_status b u))
   \<and> membershipTier (put_membership t u) = t
   \<and> totalSpent (put_membership t u) = totalSpent u"
  using checkout_account [of now oid generated st caller req]
    update_user_statistics_consistent [of amount u] fadd_whole [of "totalSpent u" amount]
  by (simp add: tier_consistent_def new_user_def login_update_def
      profile_update_def put_status_def put_membership_def spec_tier_def Let_def)

theorem C3_tier_after_mutation_witness:
  "status (fst (create_order 1700000000000 ''64c000000000000000000001'' ''VAST-1700000000000-007''
      scenario_store ''64a000000000000000000001'' scenario_request)) = 201
   \<and> st_users (snd (create_order 1700000000000 ''64c000000000000000000001''
        ''VAST-1700000000000-007'' scenario_store ''64a000000000000000000001'' scenario_request))
        ''64a000000000000000000001''
      = Some (scenario_user\<lparr>totalOrders := 1, totalSpent := 236\<rparr>)
   \<and> tier_consistent (scenario_user\<lparr>totalOrders := 1, totalSpent := 236\<rparr>)
   \<and> whole (totalSpent scenario_user) \<and> whole (12500 :: number)
   \<and> totalSpent scenario_user + 12500 < 2 ^ 53
   \<and> totalSpent (update_user_statistics 12500 scenario_user) = 12500
   \<and> membershipTier (update_user_statistics 12500 scenario_user) = silver
   \<and> membershipTier (update_user_statistics 26000 scenario_user) = gold
   \<and> tier_consistent scenario_user
   \<and> tier_consistent (login_update 1700000000000 scenario_user)"
proof -
  have h: "status (fst (create_order 1700000000000 ''64c000000000000000000001''
      ''VAST-1700000000000-007'' scenario_store ''64a000000000000000000001'' scenario_request)) = 201"
    by (simp add: scenario_checkout)
  have c: "tier_consistent scenario_user"
    by (simp add: tier_consistent_def scenario_user_def new_user_def spec_tier_def)
  have e: "membershipTier (update_user_statistics 12500 scenario_user) = silver
     \<and> membershipTier (update_user_statistics 26000 scenario_user) = gold"
    by (simp add: update_user_statistics_def updateMembershipTier_def scenario_user_def new_user_def
        fadd_def binary64_numeral)
  have w: "whole (totalSpent scenario_user) \<and> whole (12500 :: number)
     \<and> totalSpent scenario_user + 12500 < 2 ^ 53 \<and> totalSpent scenario_user = 0"
    by (simp add: scenario_user_def new_user_def whole_0)
  from C3_tier_after_mutation [of "''64a000000000000000000001''" "''Test''" "''t@x.com''"
      "''+919876543210''" "''10 chars+ street''" 12500 scenario_user
      1700000000000 "''64c000000000000000000001''" "''VAST-1700000000000-007''"
      scenario_store "''64a000000000000000000001''" scenario_request None None None True gold]
    h c e w
  show ?thesis by (auto simp: scenario_checkout)
qed




section \<open>Catalog listings\<close>

lemma matches_query_active: "matches_query q s \<Longrightarrow> s_isActive s"
  by (simp add: matches_query_def)

lemma active_and_matches: "(s_isActive s \<and> matches_query q s \<and> P) = (matches_query q s \<and> P)"
  by (auto simp: matches_query_active)

lemma active_and_matches': "(s_isActive s \<and> matches_query q s) = matches_query q s"
  by (auto simp: matches_query_active)

lemma get_services_active_only:
  "get_services tm ts (filter s_isActive catalog) q = get_services tm ts catalog q"
  by (simp add: get_services_def active_and_matches active_and_matches'
      cong: option.case_cong if_cong)

lemma get_services_listing_active:
  assumes "payload (get_services tm ts catalog q) = Some listing" and "x \<in> set (services listing)"
  shows "x \<in> set catalog \<and> s_isActive x"
  using assms
  by (auto simp: get_services_def Let_def matches_query_active
      split: if_splits option.splits dest!: in_set_takeD in_set_dropD)

lemma get_categories_active_only:
  "get_categories (filter s_isActive catalog) = get_categories catalog"
  by (simp add: get_categories_def)

lemma same_id_same_entry:
  "distinct (map s_id catalog) \<Longrightarrow> s \<in> set catalog \<Longrightarrow> x \<in> set catalog \<Longrightarrow>
   s_id x = s_id s \<Longrightarrow> x = s"
  by (auto simp: distinct_map inj_on_def)

lemma populate_service_distinct:
  "distinct (map s_id catalog) \<Longrightarrow> s \<in> set catalog \<Longrightarrow> populate_service catalog (s_id s) = Some s"
  by (induction catalog) (auto simp: populate_service_def)

lemma findOne_active_inactive:
  "distinct (map s_id catalog) \<Longrightarrow> s \<in> set catalog \<Longrightarrow> \<not> s_isActive s \<Longrightarrow>
   castObjectId sid = s_id s \<Longrightarrow> findOne_active catalog sid = None"
  using same_id_same_entry [of catalog s] by (auto simp: findOne_active_def find_None_iff)

text \<open>
  The public lookup by id, \<open>GET /api/services/:id\<close>, does ask for \<open>isActive: true\<close>: a
  deactivated entry is answered 404 there.
\<close>

lemma get_service_inactive:
  "distinct (map s_id catalog) \<Longrightarrow> s \<in> set catalog \<Longrightarrow> \<not> s_isActive s \<Longrightarrow>
   isMongoId sid \<Longrightarrow> castObjectId sid = s_id s \<Longrightarrow>
   get_service catalog sid = Reply 404 ''Vastram service not found'' None"
  by (simp add: get_service_def findOne_active_inactive)

text \<open>The soft delete keeps the entry, deactivated, under its id.\<close>

lemma find_deactivate:
  "find (\<lambda>s. s_id s = k) (deactivate sid catalog) =
     (if k = sid then map_option (\<lambda>s. s\<lparr>s_isActive := False\<rparr>) (find (\<lambda>s. s_id s = k) catalog)
      else find (\<lambda>s. s_id s = k) catalog)"
  by (induction catalog) auto

lemma length_deactivate: "length (deactivate sid catalog) = length catalog"
  by (induction catalog) auto

lemma delete_service_keeps:
  "populate_service (snd (delete_service catalog sid)) (castObjectId sid)
     = (if isMongoId sid
        then map_option (\<lambda>s. s\<lparr>s_isActive := False\<rparr>) (populate_service catalog (castObjectId sid))
        else populate_service catalog (castObjectId sid))
   \<and> length (snd (delete_service catalog sid)) = length catalog"
  by (cases "find (\<lambda>s. s_id s = castObjectId sid) catalog")
     (simp_all add: delete_service_def find_deactivate length_deactivate populate_service_def)

lemma delete_service_found:
  assumes "distinct (map s_id catalog)" and "a \<in> set catalog"
    and "isMongoId sid" and "castObjectId sid = s_id a"
  shows "status (fst (delete_service catalog sid)) = 200
         \<and> populate_service (snd (delete_service catalog sid)) (s_id a)
             = Some (a\<lparr>s_isActive := False\<rparr>)"
proof -
  from populate_service_distinct [OF assms(1,2)] have
    p: "find (\<lambda>s. s_id s = s_id a) catalog = Some a"
    by (simp add: populate_service_def)
  with assms(3,4) delete_service_keeps [of catalog sid] show ?thesis
    by (simp add: delete_service_def populate_service_def)
qed

text \<open>The lines of an order are populated from the catalog whatever \<open>isActive\<close> says.\<close>

lemma get_order_populates:
  assumes "st_orders st oid = Some ord" and "role caller = admin \<or> o_customer ord = user_id caller"
  shows "get_order st caller oid =
           Reply 200 ''Vastram order details retrieved successfully''
             (Some (ord, map (\<lambda>line. (line, populate_service (st_services st) (oi_service line)))
                         (o_items ord)))"
  using assms by (auto simp: get_order_def)

lemma get_order_line:
  assumes "st_orders st oid = Some ord" and "role caller = admin \<or> o_customer ord = user_id caller"
    and "line \<in> set (o_items ord)" and "populate_service (st_services st) (oi_service line) = Some d"
  shows "\<exists>lines. get_order st caller oid
             = Reply 200 ''Vastram order details retrieved successfully'' (Some (ord, lines))
           \<and> map fst lines = o_items ord \<and> (line, Some d) \<in> set lines"
proof -
  let ?lines = "map (\<lambda>line. (line, populate_service (st_services st) (oi_service line))) (o_items ord)"
  have "map fst ?lines = o_items ord" by (simp add: comp_def)
  moreover from assms(3,4) have "(line, Some d) \<in> set ?lines" by force
  ultimately show ?thesis
    using get_order_populates [OF assms(1,2)] by blast
qed

text \<open>
  Claim C9: a catalog entry with \<open>isActive = false\<close> (ids being unique in the catalog) is in
  no page of \<open>GET /api/services\<close>, whatever the query, and the reply is the one the catalog
  without its deactivated entries gives; the same holds of the category aggregation, where
  it is not counted, and of the model's \<open>getByCategory\<close> and \<open>getPopular\<close>; the public
  lookup of its id, \<open>GET /api/services/:id\<close>, answers 404. It is still found by the lookup
  that populates the lines of an order: \<open>GET /api/orders/:id\<close>, for a caller who may see
  the order, returns each line of the order that refers to the entry together with the
  entry. And the soft delete of an entry, \<open>DELETE /api/services/:id\<close>, keeps it under its
  id, deactivated: the lines of an order that refer to it are returned with the
  deactivated entry when the order is read after the delete.
\<close>

theorem C9_inactive_excluded_but_addressable:
  assumes "s \<in> set (st_services st)" and "\<not> s_isActive s"
    and "distinct (map s_id (st_services st))"
  shows "(\<forall>listing. payload (get_services tm ts (st_services st) q) = Some listing \<longrightarrow>
            (\<forall>x \<in> set (services listing). s_id x \<noteq> s_id s))
         \<and> get_services tm ts (st_services st) q
             = get_services tm ts (filter s_isActive (st_services st)) q
         \<and> get_categories (st_services st) = get_categories (filter s_isActive (st_services st))
         \<and> s \<notin> set (filter s_isActive (st_services st))
         \<and> s \<notin> set (getByCategory (st_services st) c) \<and> s \<notin> set (getPopular (st_services st))
         \<and> (\<forall>sid. isMongoId sid \<and> castObjectId sid = s_id s \<longrightarrow>
               get_service (st_services st) sid = Reply 404 ''Vastram service not found'' None)
         \<and> populate_service (st_services st) (s_id s) = Some s
         \<and> (\<forall>ord line. st_orders st oid = Some ord
               \<and> (role caller = admin \<or> o_customer ord = user_id caller)
               \<and> line \<in> set (o_items ord) \<and> oi_service line = s_id s \<longrightarrow>
               (\<exists>lines. get_order st caller oid
                    = Reply 200 ''Vastram order details retrieved successfully'' (Some (ord, lines))
                  \<and> map fst lines = o_items ord \<and> (line, Some s) \<in> set lines))
         \<and> (\<forall>a sid ord line. a \<in> set (st_services st)
               \<and> isMongoId sid \<and> castObjectId sid = s_id a
               \<and> st_orders st oid = Some ord
               \<and> (role caller = admin \<or> o_customer ord = user_id caller)
               \<and> line \<in> set (o_items ord) \<and> oi_service line = s_id a \<longrightarrow>
               status (fst (delete_service (st_services st) sid)) = 200
               \<and> (\<exists>lines. get_order (st\<lparr>st_services := snd (delete_service (st_services st) sid)\<rparr>)
                             caller oid
                    = Reply 200 ''Vastram order details retrieved successfully'' (Some (ord, lines))
                  \<and> map fst lines = o_items ord
                  \<and> (line, Some (a\<lparr>s_isActive := False\<rparr>)) \<in> set lines))"
proof -
  let ?catalog = "st_services st"
  have l: "s_id x \<noteq> s_id s"
    if "payload (get_services tm ts ?catalog q) = Some listing" "x \<in> set (services listing)"
    for listing x
  proof
    assume e: "s_id x = s_id s"
    from get_services_listing_active [OF that] have x: "x \<in> set ?catalog" "s_isActive x" by simp_all
    from same_id_same_entry [OF assms(3,1) x(1) e] have "x = s" .
    with x(2) assms(2) show False by simp
  qed
  have p: "populate_service ?catalog (s_id s) = Some s"
    using assms(3,1) by (rule populate_service_distinct)
  have g: "\<exists>lines. get_order st caller oid
             = Reply 200 ''Vastram order details retrieved successfully'' (Some (ord, lines))
           \<and> map fst lines = o_items ord \<and> (line, Some s) \<in> set lines"
    if "st_orders st oid = Some ord" "role caller = admin \<or> o_customer ord = user_id caller"
       "line \<in> set (o_items ord)" "oi_service line = s_id s"
    for ord line
    using get_order_line [OF that(1,2,3)] p that(4) by simp
  have d: "status (fst (delete_service ?catalog sid)) = 200
         \<and> (\<exists>lines. get_order (st\<lparr>st_services := snd (delete_service ?catalog sid)\<rparr>) caller oid
                    = Reply 200 ''Vastram order details retrieved successfully'' (Some (ord, lines))
                  \<and> map fst lines = o_items ord
                  \<and> (line, Some (a\<lparr>s_isActive := False\<rparr>)) \<in> set lines)"
    if "a \<in> set ?catalog" "isMongoId sid" "castObjectId sid = s_id a"
       "st_orders st oid = Some ord" "role caller = admin \<or> o_customer ord = user_id caller"
       "line \<in> set (o_items ord)" "oi_service line = s_id a"
    for a sid ord line
  proof -
    let ?st = "st\<lparr>st_services := snd (delete_service ?catalog sid)\<rparr>"
    from delete_service_found [OF assms(3) that(1,2,3)] have
      f: "status (fst (delete_service ?catalog sid)) = 200"
         "populate_service (st_services ?st) (oi_service line) = Some (a\<lparr>s_isActive := False\<rparr>)"
      using that(7) by simp_all
    have o: "st_orders ?st oid = Some ord" using that(4) by simp
    from get_order_line [OF o that(5,6) f(2)] f(1) show ?thesis by simp
  qed
  have i: "get_service ?catalog sid = Reply 404 ''Vastram service not found'' None"
    if "isMongoId sid" "castObjectId sid = s_id s" for sid
    using assms(3,1,2) that by (rule get_service_inactive)
  have e: "get_services tm ts ?catalog q = get_services tm ts (filter s_isActive ?catalog) q"
    by (simp add: get_services_active_only)
  have c: "get_categories ?catalog = get_categories (filter s_isActive ?catalog)"
    by (simp add: get_categories_active_only)
  have n: "s \<notin> set (filter s_isActive ?catalog)" "s \<notin> set (getByCategory ?catalog c)"
    "s \<notin> set (getPopular ?catalog)"
    using assms(2) by (simp_all add: getByCategory_def getPopular_def)
  from l e c n i p g d show ?thesis by blast
qed

theorem C9_inactive_excluded_but_addressable_witness:
  "scenario_retired \<in> set (st_services historical_store)
   \<and> \<not> s_isActive scenario_retired
   \<and> distinct (map s_id (st_services historical_store))
   \<and> get_services (\<lambda>t s. True) (\<lambda>t s. 0) (st_services historical_store)
        \<lparr>q_category = None, q_minPrice = None, q_maxPrice = None, q_search = None,
         q_popular = False, q_page = None, q_limit = None\<rparr>
      = Reply 200 ''Vastram services retrieved successfully''
          (Some \<lparr>services = [scenario_service],
                 pagination = \<lparr>currentPage = 1, totalPages = 1, totalServices = 1,
                               hasNext = False, hasPrev = False\<rparr>\<rparr>)
   \<and> map cat_id (get_categories (st_services historical_store)) = [''shirts'']
   \<and> get_service (st_services historical_store) ''64B000000000000000000002''
      = Reply 404 ''Vastram service not found'' None
   \<and> get_order historical_store scenario_user ''64c000000000000000000001''
      = Reply 200 ''Vastram order details retrieved successfully''
          (Some (historical_order,
                 [(o_items historical_order ! 0, Some scenario_retired),
                  (o_items historical_order ! 1, Some scenario_service)]))
   \<and> status (fst (delete_service (st_services historical_store) ''64B000000000000000000001'')) = 200
   \<and> get_order (historical_store\<lparr>st_services :=
          snd (delete_service (st_services historical_store) ''64B000000000000000000001'')\<rparr>)
        scenario_user ''64c000000000000000000001''
      = Reply 200 ''Vastram order details retrieved successfully''
          (Some (historical_order,
                 [(o_items historical_order ! 0, Some scenario_retired),
                  (o_items historical_order ! 1, Some (scenario_service\<lparr>s_isActive := False\<rparr>))]))
   \<and> get_services (\<lambda>t s. True) (\<lambda>t s. 0)
        (snd (delete_service (st_services historical_store) ''64B000000000000000000001''))
        \<lparr>q_category = None, q_minPrice = None, q_maxPrice = None, q_search = None,
         q_popular = False, q_page = None, q_limit = None\<rparr>
      = Reply 200 ''Vastram services retrieved successfully''
          (Some \<lparr>services = [],
                 pagination = \<lparr>currentPage = 1, totalPages = 0, totalServices = 0,
                               hasNext = False, hasPrev = False\<rparr>\<rparr>)"
proof -
  let ?q = "\<lparr>q_category = None, q_minPrice = None, q_maxPrice = None, q_search = None,
         q_popular = False, q_page = None, q_limit = None\<rparr>"
  have h: "scenario_retired \<in> set (st_services historical_store)"
     "\<not> s_isActive scenario_retired"
     "distinct (map s_id (st_services historical_store))"
    by (simp_all add: historical_store_def scenario_store_def scenario_retired_def
        scenario_service_def)
  have f: "filter s_isActive (st_services historical_store) = [scenario_service]"
    by (simp add: historical_store_def scenario_store_def scenario_retired_def scenario_service_def)
  have g: "get_services (\<lambda>t s. True) (\<lambda>t s. 0) [scenario_service] ?q
      = Reply 200 ''Vastram services retrieved successfully''
          (Some \<lparr>services = [scenario_service],
                 pagination = \<lparr>currentPage = 1, totalPages = 1, totalServices = 1,
                               hasNext = False, hasPrev = False\<rparr>\<rparr>)"
    by (simp add: get_services_def or_default_def matches_query_def ceil_div_def
        scenario_service_def)
  have k: "map cat_id (get_categories [scenario_service]) = [''shirts'']"
    by (simp add: get_categories_def categories_ascending_def category_group_def
        scenario_service_def)
  have i: "isMongoId ''64B000000000000000000002''
     \<and> castObjectId ''64B000000000000000000002'' = s_id scenario_retired
     \<and> isMongoId ''64B000000000000000000001''
     \<and> castObjectId ''64B000000000000000000001'' = s_id scenario_service
     \<and> scenario_service \<in> set (st_services historical_store)"
    by (simp add: scenario_retired_def scenario_service_def castObjectId_def isMongoId_def
        isHexDigit_def historical_store_def scenario_store_def)
  have o: "st_orders historical_store ''64c000000000000000000001'' = Some historical_order
     \<and> o_customer historical_order = user_id scenario_user
     \<and> o_items historical_order ! 0 \<in> set (o_items historical_order)
     \<and> oi_service (o_items historical_order ! 0) = s_id scenario_retired
     \<and> o_items historical_order ! 1 \<in> set (o_items historical_order)
     \<and> oi_service (o_items historical_order ! 1) = s_id scenario_service"
    by (simp add: historical_store_def historical_order_def scenario_store_def
        scenario_order_def scenario_user_def new_user_def scenario_retired_def
        scenario_service_def)
  have r: "get_order historical_store scenario_user ''64c000000000000000000001''
      = Reply 200 ''Vastram order details retrieved successfully''
          (Some (historical_order,
                 [(o_items historical_order ! 0, Some scenario_retired),
                  (o_items historical_order ! 1, Some scenario_service)]))"
    by (simp add: get_order_def historical_store_def historical_order_def scenario_store_def
        scenario_order_def scenario_user_def new_user_def scenario_retired_def
        scenario_service_def populate_service_def)
  have d: "snd (delete_service (st_services historical_store) ''64B000000000000000000001'')
      = [scenario_service\<lparr>s_isActive := False\<rparr>, scenario_retired]"
    by (simp add: delete_service_def historical_store_def scenario_store_def
        scenario_retired_def scenario_service_def castObjectId_def isMongoId_def isHexDigit_def)
  have r': "get_order (historical_store\<lparr>st_services :=
          [scenario_service\<lparr>s_isActive := False\<rparr>, scenario_retired]\<rparr>)
        scenario_user ''64c000000000000000000001''
      = Reply 200 ''Vastram order details retrieved successfully''
          (Some (historical_order,
                 [(o_items historical_order ! 0, Some scenario_retired),
                  (o_items historical_order ! 1, Some (scenario_service\<lparr>s_isActive := False\<rparr>))]))"
    by (simp add: get_order_def historical_store_def historical_order_def scenario_store_def
        scenario_order_def scenario_user_def new_user_def scenario_retired_def
        scenario_service_def populate_service_def)
  have e: "get_services (\<lambda>t s. True) (\<lambda>t s. 0)
        [scenario_service\<lparr>s_isActive := False\<rparr>, scenario_retired] ?q
      = Reply 200 ''Vastram services retrieved successfully''
          (Some \<lparr>services = [],
                 pagination = \<lparr>currentPage = 1, totalPages = 0, totalServices = 0,
                               hasNext = False, hasPrev = False\<rparr>\<rparr>)"
    by (simp add: get_services_def or_default_def matches_query_def ceil_div_def
        scenario_service_def scenario_retired_def)
  note t = C9_inactive_excluded_but_addressable [OF h, of "\<lambda>t s. True" "\<lambda>t s. 0" ?q
      shirts "''64c000000000000000000001''" scenario_user]
  from t [THEN conjunct2, THEN conjunct1] have
    a1: "get_services (\<lambda>t s. True) (\<lambda>t s. 0) (st_services historical_store) ?q
      = Reply 200 ''Vastram services retrieved successfully''
          (Some \<lparr>services = [scenario_service],
                 pagination = \<lparr>currentPage = 1, totalPages = 1, totalServices = 1,
                               hasNext = False, hasPrev = False\<rparr>\<rparr>)"
    by (simp only: f g)
  from t [THEN conjunct2, THEN conjunct2, THEN conjunct1] have
    a2: "map cat_id (get_categories (st_services historical_store)) = [''shirts'']"
    by (simp only: f k)
  from t [THEN conjunct2, THEN conjunct2, THEN conjunct2, THEN conjunct2, THEN conjunct2,
          THEN conjunct2, THEN conjunct1, rule_format, of "''64B000000000000000000002''"] i
  have a3: "get_service (st_services historical_store) ''64B000000000000000000002''
      = Reply 404 ''Vastram service not found'' None"
    by blast
  from t [THEN conjunct2, THEN conjunct2, THEN conjunct2, THEN conjunct2, THEN conjunct2,
          THEN conjunct2, THEN conjunct2, THEN conjunct2, THEN conjunct2, rule_format,
          of scenario_service "''64B000000000000000000001''" historical_order
             "o_items historical_order ! 1"] i o
  have a4: "status (fst (delete_service (st_services historical_store)
              ''64B000000000000000000001'')) = 200"
    by blast
  from r' have a5: "get_order (historical_store\<lparr>st_services :=
          snd (delete_service (st_services historical_store) ''64B000000000000000000001'')\<rparr>)
        scenario_user ''64c000000000000000000001''
      = Reply 200 ''Vastram order details retrieved successfully''
          (Some (historical_order,
                 [(o_items historical_order ! 0, Some scenario_retired),
                  (o_items historical_order ! 1, Some (scenario_service\<lparr>s_isActive := False\<rparr>))]))"
    by (simp only: d)
  from e have a6: "get_services (\<lambda>t s. True) (\<lambda>t s. 0)
        (snd (delete_service (st_services historical_store) ''64B000000000000000000001'')) ?q
      = Reply 200 ''Vastram services retrieved successfully''
          (Some \<lparr>services = [],
                 pagination = \<lparr>currentPage = 1, totalPages = 0, totalServices = 0,
                               hasNext = False, hasPrev = False\<rparr>\<rparr>)"
    by (simp only: d)
  from h a1 a2 a3 r a4 a5 a6 show ?thesis by blast
qed

end
